theory Spec2Isabelle
  imports Main
begin

section \<open>Shared types\<close>

text \<open>
  Go's \<open>error\<close> values that the code under study tells apart: the two sentinels of the
  database package, the i18n error the transport builds, and any other (transient) failure,
  which carries its text. A Go \<open>error\<close> result is an
  \<open>error option\<close>, \<open>None\<close> being \<open>nil\<close>. A UUID and a 32-byte hash are taken in their
  text form.
\<close>

type_synonym uuid = string
type_synonym bytes32 = string
type_synonym fftime = nat
type_synonym info = "(string \<times> string) list"

datatype error =
    HashMismatch
  | IDMismatch
  | MsgWSInvalidStartAction
  | OtherError string

section \<open>The event-stream client (core/src/clients/event-streams.ts)\<close>

text \<open>
  A frame is the object literal handed to \<open>JSON.stringify\<close> before \<open>ws.send\<close>: its
  properties in order, all of them strings here.
\<close>

type_synonym frame = "(string \<times> string) list"

record eventStreams =
  wsEndpoint :: string
  topic :: string

record IEventStreamMessage =
  message_signature :: string
  message_data :: string

text \<open>
  \<open>utils.contractEventSignatures\<close>, \<open>JSON.parse\<close> and the two handlers are not part of
  the file; they are parameters. A handler (and the parser) either resolves or throws:
  the parser returns \<open>None\<close> when it throws or when what it parsed cannot be iterated, a
  handler returns \<open>False\<close> with the state it left behind.
\<close>

record contractEventSignatures =
  MEMBER_REGISTERED :: string
  DESCRIBED_STRUCTURED_ASSET_DEFINITION_CREATED :: string
  DESCRIBED_UNSTRUCTURED_ASSET_DEFINITION_CREATED :: string
  STRUCTURED_ASSET_DEFINITION_CREATED :: string
  UNSTRUCTURED_ASSET_DEFINITION_CREATED :: string

record 's clientHandlers =
  JSON_parse :: "string \<Rightarrow> IEventStreamMessage list option"
  handleMemberRegisteredEvent :: "string \<Rightarrow> 's \<Rightarrow> bool \<times> 's"
  handleAssetDefinitionCreatedEvent :: "string \<Rightarrow> 's \<Rightarrow> bool \<times> 's"

text \<open>The \<open>switch\<close> of \<open>handleMessage\<close> for one element of the array.\<close>

definition dispatchMessage ::
  "contractEventSignatures \<Rightarrow> 's clientHandlers \<Rightarrow> IEventStreamMessage \<Rightarrow> 's \<Rightarrow> bool \<times> 's" where
  "dispatchMessage sigs h message s =
     (if message_signature message = MEMBER_REGISTERED sigs
        then handleMemberRegisteredEvent h (message_data message) s
      else if message_signature message = DESCRIBED_STRUCTURED_ASSET_DEFINITION_CREATED sigs
            \<or> message_signature message = DESCRIBED_UNSTRUCTURED_ASSET_DEFINITION_CREATED sigs
            \<or> message_signature message = STRUCTURED_ASSET_DEFINITION_CREATED sigs
            \<or> message_signature message = UNSTRUCTURED_ASSET_DEFINITION_CREATED sigs
        then handleAssetDefinitionCreatedEvent h (message_data message) s
      else (True, s))"

text \<open>The \<open>for ... of\<close> loop; a handler that throws ends it.\<close>

fun handleMessages ::
  "contractEventSignatures \<Rightarrow> 's clientHandlers \<Rightarrow> IEventStreamMessage list \<Rightarrow> 's \<Rightarrow> bool \<times> 's" where
  "handleMessages sigs h [] s = (True, s)"
| "handleMessages sigs h (message # rest) s =
     (case dispatchMessage sigs h message s of
        (False, s') \<Rightarrow> (False, s')
      | (True, s') \<Rightarrow> handleMessages sigs h rest s')"

definition handleMessage ::
  "contractEventSignatures \<Rightarrow> 's clientHandlers \<Rightarrow> string \<Rightarrow> 's \<Rightarrow> bool \<times> 's" where
  "handleMessage sigs h message s =
     (case JSON_parse h message of
        None \<Rightarrow> (False, s)
      | Some messageArray \<Rightarrow> handleMessages sigs h messageArray s)"

text \<open>The frame \<open>{type: 'listen', topic}\<close> of the \<open>open\<close> handler.\<close>

definition listenFrame :: "eventStreams \<Rightarrow> frame" where
  "listenFrame cfg = [(''type'', ''listen''), (''topic'', topic cfg)]"

text \<open>The frame the \<open>message\<close> handler sends after \<open>handleMessage\<close> has resolved.\<close>

definition ackFrame :: "eventStreams \<Rightarrow> frame" where
  "ackFrame cfg = [(''type'', ''ack''), (''topic'', topic cfg)]"

text \<open>
  The \<open>message\<close> handler: the frames it sends and the state it leaves. When
  \<open>handleMessage\<close> throws, the \<open>await\<close> rejects and \<open>ws.send\<close> is not reached.
\<close>

definition onMessage ::
  "eventStreams \<Rightarrow> contractEventSignatures \<Rightarrow> 's clientHandlers \<Rightarrow> string \<Rightarrow> 's
     \<Rightarrow> frame list \<times> 's" where
  "onMessage cfg sigs h message s =
     (case handleMessage sigs h message s of
        (False, s') \<Rightarrow> ([], s')
      | (True, s') \<Rightarrow> ([ackFrame cfg], s'))"

text \<open>A client whose parser reads every message as the empty array (used as a concrete input).\<close>

definition quietHandlers :: "unit clientHandlers" where
  "quietHandlers =
     \<lparr>JSON_parse = (\<lambda>m. Some []),
      handleMemberRegisteredEvent = (\<lambda>d s. (True, s)),
      handleAssetDefinitionCreatedEvent = (\<lambda>d s. (True, s))\<rparr>"

definition sampleSignatures :: contractEventSignatures where
  "sampleSignatures =
     \<lparr>MEMBER_REGISTERED = ''MemberRegistered'',
      DESCRIBED_STRUCTURED_ASSET_DEFINITION_CREATED = ''DescribedStructured'',
      DESCRIBED_UNSTRUCTURED_ASSET_DEFINITION_CREATED = ''DescribedUnstructured'',
      STRUCTURED_ASSET_DEFINITION_CREATED = ''Structured'',
      UNSTRUCTURED_ASSET_DEFINITION_CREATED = ''Unstructured''\<rparr>"

definition sampleConfig :: eventStreams where
  "sampleConfig = \<lparr>wsEndpoint = ''ws://localhost'', topic = ''dev''\<rparr>"

section \<open>The WebSocket transport (internal/events/websockets/websockets.go)\<close>

record SubscriptionFilter =
  filter_Events :: string
  filter_Topic :: string
  filter_Context :: string
  filter_Group :: string

record SubscriptionOptions =
  opt_FirstEvent :: "string option"
  opt_BatchEnabled :: "bool option"
  opt_BatchTimeout :: "nat option"
  opt_BatchSize :: "nat option"

record SubscriptionRef =
  ref_Namespace :: string
  ref_Name :: string

record WSClientActionStartPayload =
  start_Ephemeral :: bool
  start_Namespace :: string
  start_Name :: string
  start_Filter :: SubscriptionFilter
  start_Options :: SubscriptionOptions

text \<open>
  \<open>events.Callbacks\<close> is an interface of the connection manager; its two methods that
  \<open>start\<close> calls are parameters over the manager's state. The transport's view of the
  manager is that state together with the log of the calls made, in call order.
\<close>

record 'cm callbacks =
  EphemeralSubscription ::
    "string \<Rightarrow> SubscriptionFilter \<Rightarrow> SubscriptionOptions \<Rightarrow> 'cm \<Rightarrow> error option \<times> 'cm"
  RegisterConnection :: "string \<Rightarrow> (SubscriptionRef \<Rightarrow> bool) \<Rightarrow> 'cm \<Rightarrow> 'cm"

datatype callback_call =
    CallEphemeralSubscription string SubscriptionFilter SubscriptionOptions
  | CallRegisterConnection string "SubscriptionRef \<Rightarrow> bool"

record 'cm manager =
  cm :: 'cm
  cb_calls :: "callback_call list"

text \<open>The closure \<open>func(sr fftypes.SubscriptionRef) bool\<close> built by \<open>start\<close>.\<close>

definition startMatcher :: "WSClientActionStartPayload \<Rightarrow> SubscriptionRef \<Rightarrow> bool" where
  "startMatcher start sr \<longleftrightarrow>
     ref_Namespace sr = start_Namespace start \<and> ref_Name sr = start_Name start"

definition start ::
  "'cm callbacks \<Rightarrow> string \<Rightarrow> WSClientActionStartPayload \<Rightarrow> 'cm manager
     \<Rightarrow> error option \<times> 'cm manager" where
  "start cbs connID st m =
     (if start_Ephemeral st then
        (case EphemeralSubscription cbs connID (start_Filter st) (start_Options st) (cm m) of
           (err, c) \<Rightarrow>
             (err, \<lparr>cm = c,
                    cb_calls = cb_calls m @
                      [CallEphemeralSubscription connID (start_Filter st) (start_Options st)]\<rparr>))
      else if start_Namespace st = [] \<or> start_Name st = [] then
        (Some MsgWSInvalidStartAction, m)
      else
        (None, \<lparr>cm = RegisterConnection cbs connID (startMatcher st) (cm m),
                cb_calls = cb_calls m @ [CallRegisterConnection connID (startMatcher st)]\<rparr>))"

text \<open>A connection manager that counts its calls (used as a concrete input).\<close>

definition countingCallbacks :: "nat callbacks" where
  "countingCallbacks =
     \<lparr>EphemeralSubscription = (\<lambda>connID f opts n. (None, Suc n)),
      RegisterConnection = (\<lambda>connID matcher n. Suc n)\<rparr>"

definition emptyFilter :: SubscriptionFilter where
  "emptyFilter = \<lparr>filter_Events = [], filter_Topic = [], filter_Context = [], filter_Group = []\<rparr>"

definition emptyOptions :: SubscriptionOptions where
  "emptyOptions =
     \<lparr>opt_FirstEvent = None, opt_BatchEnabled = None, opt_BatchTimeout = None,
      opt_BatchSize = None\<rparr>"

definition sampleStart :: "bool \<Rightarrow> string \<Rightarrow> string \<Rightarrow> WSClientActionStartPayload" where
  "sampleStart e ns name =
     \<lparr>start_Ephemeral = e, start_Namespace = ns, start_Name = name,
      start_Filter = emptyFilter, start_Options = emptyOptions\<rparr>"

section \<open>The batch aggregator (package aggregator, in core/src/clients/event-streams.ts)\<close>

subsection \<open>Data\<close>

text \<open>
  The structs of \<open>fftypes\<close> with the fields the aggregator reads or writes. A Go pointer
  field is an \<open>option\<close>, \<open>None\<close> being \<open>nil\<close>; the entries of \<open>Payload.Data\<close> and
  \<open>Payload.Messages\<close> are pointers too.
\<close>

record TransactionRef =
  txref_Type :: string
  txref_ID :: "uuid option"

record TransactionSubject =
  subj_Type :: string
  subj_Author :: string
  subj_Namespace :: string
  subj_Batch :: "uuid option"

record Transaction =
  tx_ID :: "uuid option"
  tx_Subject :: TransactionSubject
  tx_Hash :: "bytes32 option"
  tx_Confirmed :: "fftime option"
  tx_ProtocolID :: string
  tx_Info :: info
  tx_Status :: string

record Data =
  data_ID :: "uuid option"
  data_Hash :: "bytes32 option"
  data_Value :: string

record MessageHeader =
  header_ID :: "uuid option"

record Message =
  msg_Header :: MessageHeader
  msg_Hash :: "bytes32 option"
  msg_BatchID :: "uuid option"
  msg_Confirmed :: "fftime option"

record BatchPayload =
  payload_TX :: TransactionRef
  payload_Messages :: "Message option list"
  payload_Data :: "Data option list"

record Batch =
  batch_ID :: "uuid option"
  batch_Namespace :: string
  batch_Author :: string
  batch_Hash :: "bytes32 option"
  batch_Payload :: BatchPayload
  batch_Confirmed :: "fftime option"

record Event =
  event_Type :: string
  event_Ref :: "uuid option"
  event_Namespace :: string
  event_Created :: "fftime option"

definition TransactionTypePin :: string where
  "TransactionTypePin = ''pin''"

definition TransactionStatusConfirmed :: string where
  "TransactionStatusConfirmed = ''confirmed''"

subsection \<open>The collaborators\<close>

text \<open>
  The methods of \<open>fftypes\<close> that the aggregator calls are parameters: the payload hash,
  the hash of a transaction subject, the hash of a data value (which can fail) and
  \<open>Message.Verify\<close>.
\<close>

record fftypes =
  Payload_Hash :: "BatchPayload \<Rightarrow> bytes32"
  Subject_Hash :: "TransactionSubject \<Rightarrow> bytes32"
  Value_Hash :: "string \<Rightarrow> error + bytes32"
  Verify :: "Message \<Rightarrow> error option"

text \<open>
  The methods of \<open>database.Plugin\<close> are parameters over the state \<open>'db\<close> of the store: the
  four upserts and the read that \<open>persistBatch\<close> calls, and the insertion of an event, which
  the store of the spec offers and the aggregator never calls.
\<close>

record 'db plugins =
  UpsertBatch :: "Batch \<Rightarrow> bool \<Rightarrow> 'db \<Rightarrow> error option \<times> 'db"
  GetTransactionById :: "string \<Rightarrow> uuid option \<Rightarrow> 'db \<Rightarrow> (Transaction option \<times> error option) \<times> 'db"
  UpsertTransaction :: "Transaction \<Rightarrow> bool \<Rightarrow> 'db \<Rightarrow> error option \<times> 'db"
  UpsertData :: "Data \<Rightarrow> bool \<Rightarrow> 'db \<Rightarrow> error option \<times> 'db"
  UpsertMessage :: "Message \<Rightarrow> bool \<Rightarrow> 'db \<Rightarrow> error option \<times> 'db"
  InsertEvent :: "Event \<Rightarrow> 'db \<Rightarrow> error option \<times> 'db"

text \<open>
  Every call of a plugin is logged with its arguments and its result, in call order. The
  world \<open>persistBatch\<close> runs in is the store's state and that log.
\<close>

datatype plugin_call =
    OpUpsertBatch Batch bool "error option"
  | OpGetTransactionById string "uuid option" "Transaction option" "error option"
  | OpUpsertTransaction Transaction bool "error option"
  | OpUpsertData Data bool "error option"
  | OpUpsertMessage Message bool "error option"
  | OpInsertEvent Event "error option"

record 'db world =
  db :: 'db
  calls :: "plugin_call list"

definition call_UpsertBatch ::
  "'db plugins \<Rightarrow> Batch \<Rightarrow> bool \<Rightarrow> 'db world \<Rightarrow> error option \<times> 'db world" where
  "call_UpsertBatch p b allowHashUpdate w =
     (case UpsertBatch p b allowHashUpdate (db w) of
        (r, d) \<Rightarrow> (r, \<lparr>db = d, calls = calls w @ [OpUpsertBatch b allowHashUpdate r]\<rparr>))"

definition call_GetTransactionById ::
  "'db plugins \<Rightarrow> string \<Rightarrow> uuid option \<Rightarrow> 'db world
     \<Rightarrow> (Transaction option \<times> error option) \<times> 'db world" where
  "call_GetTransactionById p ns txid w =
     (case GetTransactionById p ns txid (db w) of
        ((t, e), d) \<Rightarrow> ((t, e), \<lparr>db = d, calls = calls w @ [OpGetTransactionById ns txid t e]\<rparr>))"

definition call_UpsertTransaction ::
  "'db plugins \<Rightarrow> Transaction \<Rightarrow> bool \<Rightarrow> 'db world \<Rightarrow> error option \<times> 'db world" where
  "call_UpsertTransaction p t allowHashUpdate w =
     (case UpsertTransaction p t allowHashUpdate (db w) of
        (r, d) \<Rightarrow> (r, \<lparr>db = d, calls = calls w @ [OpUpsertTransaction t allowHashUpdate r]\<rparr>))"

definition call_UpsertData ::
  "'db plugins \<Rightarrow> Data \<Rightarrow> bool \<Rightarrow> 'db world \<Rightarrow> error option \<times> 'db world" where
  "call_UpsertData p x allowHashUpdate w =
     (case UpsertData p x allowHashUpdate (db w) of
        (r, d) \<Rightarrow> (r, \<lparr>db = d, calls = calls w @ [OpUpsertData x allowHashUpdate r]\<rparr>))"

definition call_UpsertMessage ::
  "'db plugins \<Rightarrow> Message \<Rightarrow> bool \<Rightarrow> 'db world \<Rightarrow> error option \<times> 'db world" where
  "call_UpsertMessage p x allowHashUpdate w =
     (case UpsertMessage p x allowHashUpdate (db w) of
        (r, d) \<Rightarrow> (r, \<lparr>db = d, calls = calls w @ [OpUpsertMessage x allowHashUpdate r]\<rparr>))"

subsection \<open>persistBatchData and persistBatchMessage\<close>

definition persistBatchData ::
  "fftypes \<Rightarrow> 'db plugins \<Rightarrow> Batch \<Rightarrow> nat \<Rightarrow> Data option \<Rightarrow> 'db world
     \<Rightarrow> error option \<times> 'db world" where
  "persistBatchData ff p batch i data w =
     (case data of
        None \<Rightarrow> (None, w)
      | Some d \<Rightarrow>
          (case Value_Hash ff (data_Value d) of
             Inl err \<Rightarrow> (None, w)
           | Inr hash \<Rightarrow>
               if data_Hash d = None \<or> data_Hash d \<noteq> Some hash then (None, w)
               else
                 (case call_UpsertData p d False w of
                    (None, w') \<Rightarrow> (None, w')
                  | (Some err, w') \<Rightarrow>
                      if err = HashMismatch then (None, w') else (Some err, w'))))"

text \<open>
  \<open>persistBatchMessage\<close> writes \<open>Confirmed\<close> and \<open>BatchID\<close> into the message it is given a
  pointer to, so it returns the message entry as it leaves it.
\<close>

definition persistBatchMessage ::
  "fftypes \<Rightarrow> 'db plugins \<Rightarrow> Batch \<Rightarrow> fftime \<Rightarrow> nat \<Rightarrow> Message option \<Rightarrow> 'db world
     \<Rightarrow> error option \<times> Message option \<times> 'db world" where
  "persistBatchMessage ff p batch now i msg w =
     (case msg of
        None \<Rightarrow> (None, None, w)
      | Some m \<Rightarrow>
          (case Verify ff m of
             Some err \<Rightarrow> (None, Some m, w)
           | None \<Rightarrow>
               (let m' = m\<lparr>msg_Confirmed := Some now, msg_BatchID := batch_ID batch\<rparr> in
                case call_UpsertMessage p m' False w of
                  (None, w') \<Rightarrow> (None, Some m', w')
                | (Some err, w') \<Rightarrow>
                    if err = HashMismatch then (None, Some m', w') else (Some err, Some m', w'))))"

subsection \<open>persistBatch\<close>

text \<open>The loop over \<open>batch.Payload.Data\<close>, from index \<open>i\<close>.\<close>

fun persistDataEntries ::
  "fftypes \<Rightarrow> 'db plugins \<Rightarrow> Batch \<Rightarrow> nat \<Rightarrow> Data option list \<Rightarrow> 'db world
     \<Rightarrow> error option \<times> 'db world" where
  "persistDataEntries ff p batch i [] w = (None, w)"
| "persistDataEntries ff p batch i (data # rest) w =
     (case persistBatchData ff p batch i data w of
        (Some err, w') \<Rightarrow> (Some err, w')
      | (None, w') \<Rightarrow> persistDataEntries ff p batch (Suc i) rest w')"

text \<open>
  The loop over \<open>batch.Payload.Messages\<close>, from index \<open>i\<close>; it returns the entries as the
  calls of \<open>persistBatchMessage\<close> leave them.
\<close>

fun persistMessageEntries ::
  "fftypes \<Rightarrow> 'db plugins \<Rightarrow> Batch \<Rightarrow> fftime \<Rightarrow> nat \<Rightarrow> Message option list \<Rightarrow> 'db world
     \<Rightarrow> error option \<times> Message option list \<times> 'db world" where
  "persistMessageEntries ff p batch now i [] w = (None, [], w)"
| "persistMessageEntries ff p batch now i (msg # rest) w =
     (case persistBatchMessage ff p batch now i msg w of
        (Some err, msg', w') \<Rightarrow> (Some err, msg' # rest, w')
      | (None, msg', w') \<Rightarrow>
          (case persistMessageEntries ff p batch now (Suc i) rest w' of
             (r, rest', w'') \<Rightarrow> (r, msg' # rest', w'')))"

text \<open>Lines 209 to 223: the data entries, then the message entries.\<close>

definition persistBatchEntries ::
  "fftypes \<Rightarrow> 'db plugins \<Rightarrow> fftime \<Rightarrow> Batch \<Rightarrow> 'db world \<Rightarrow> error option \<times> Batch \<times> 'db world" where
  "persistBatchEntries ff p now batch w =
     (case persistDataEntries ff p batch 0 (payload_Data (batch_Payload batch)) w of
        (Some err, w') \<Rightarrow> (Some err, batch, w')
      | (None, w') \<Rightarrow>
          (case persistMessageEntries ff p batch now 0 (payload_Messages (batch_Payload batch)) w' of
             (r, msgs, w'') \<Rightarrow>
               (r, batch\<lparr>batch_Payload := (batch_Payload batch)\<lparr>payload_Messages := msgs\<rparr>\<rparr>, w'')))"

text \<open>The transaction record \<open>persistBatch\<close> builds when it finds none (lines 173 to 182).\<close>

definition newTransaction :: "fftypes \<Rightarrow> Batch \<Rightarrow> string \<Rightarrow> Transaction" where
  "newTransaction ff batch author =
     (let subject = \<lparr>subj_Type = TransactionTypePin, subj_Author = author,
                     subj_Namespace = batch_Namespace batch, subj_Batch = batch_ID batch\<rparr>
      in \<lparr>tx_ID = txref_ID (payload_TX (batch_Payload batch)), tx_Subject = subject,
          tx_Hash = Some (Subject_Hash ff subject), tx_Confirmed = None, tx_ProtocolID = [],
          tx_Info = [], tx_Status = []\<rparr>)"

text \<open>The test of an existing record against the batch (lines 183 to 187).\<close>

definition subjectMismatch :: "Transaction \<Rightarrow> Batch \<Rightarrow> string \<Rightarrow> bool" where
  "subjectMismatch tx batch author \<longleftrightarrow>
     subj_Type (tx_Subject tx) \<noteq> TransactionTypePin
     \<or> subj_Author (tx_Subject tx) \<noteq> author
     \<or> subj_Namespace (tx_Subject tx) \<noteq> batch_Namespace batch
     \<or> subj_Batch (tx_Subject tx) = None
     \<or> subj_Batch (tx_Subject tx) \<noteq> batch_ID batch"

text \<open>Lines 192 to 196: the updates set on the transaction before its upsert.\<close>

definition confirmTransaction :: "Transaction \<Rightarrow> fftime \<Rightarrow> string \<Rightarrow> info \<Rightarrow> Transaction" where
  "confirmTransaction tx now protocolTxId additionalInfo =
     tx\<lparr>tx_Confirmed := Some now, tx_ProtocolID := protocolTxId, tx_Info := additionalInfo,
        tx_Status := TransactionStatusConfirmed\<rparr>"

text \<open>Lines 192 to 223: the upsert of the transaction, then the entries.\<close>

definition persistBatchConfirmed ::
  "fftypes \<Rightarrow> 'db plugins \<Rightarrow> fftime \<Rightarrow> Batch \<Rightarrow> Transaction \<Rightarrow> string \<Rightarrow> info \<Rightarrow> 'db world
     \<Rightarrow> error option \<times> Batch \<times> 'db world" where
  "persistBatchConfirmed ff p now batch tx protocolTxId additionalInfo w =
     (case call_UpsertTransaction p
             (confirmTransaction tx now protocolTxId additionalInfo) False w of
        (Some err, w') \<Rightarrow>
          if err = HashMismatch then (None, batch, w') else (Some err, batch, w')
      | (None, w') \<Rightarrow> persistBatchEntries ff p now batch w')"

text \<open>
  Lines 169 to 223: what \<open>persistBatch\<close> does once the batch itself is upserted. The error
  of the read is dropped (\<open>tx, _ := ...\<close>).
\<close>

definition persistBatchTransaction ::
  "fftypes \<Rightarrow> 'db plugins \<Rightarrow> fftime \<Rightarrow> Batch \<Rightarrow> string \<Rightarrow> string \<Rightarrow> info \<Rightarrow> 'db world
     \<Rightarrow> error option \<times> Batch \<times> 'db world" where
  "persistBatchTransaction ff p now batch author protocolTxId additionalInfo w =
     (case call_GetTransactionById p (batch_Namespace batch)
             (txref_ID (payload_TX (batch_Payload batch))) w of
        ((found, _), w1) \<Rightarrow>
          (case found of
             None \<Rightarrow>
               persistBatchConfirmed ff p now batch (newTransaction ff batch author)
                 protocolTxId additionalInfo w1
           | Some tx \<Rightarrow>
               if subjectMismatch tx batch author then (None, batch, w1)
               else persistBatchConfirmed ff p now batch tx protocolTxId additionalInfo w1))"

text \<open>
  \<open>persistBatch\<close>, for a batch pointer that is not \<open>nil\<close>. \<open>now\<close> is what \<open>fftypes.Now()\<close>
  returns on line 135. The function writes into the batch it is given a pointer to
  (\<open>Confirmed\<close>, and the message entries), so it returns the batch as it leaves it.
\<close>

definition persistBatch ::
  "fftypes \<Rightarrow> 'db plugins \<Rightarrow> fftime \<Rightarrow> Batch \<Rightarrow> string \<Rightarrow> string \<Rightarrow> info \<Rightarrow> 'db world
     \<Rightarrow> error option \<times> Batch \<times> 'db world" where
  "persistBatch ff p now batch author protocolTxId additionalInfo w =
     (if batch_ID batch = None \<or> txref_ID (payload_TX (batch_Payload batch)) = None then
        (None, batch, w)
      else if batch_Hash batch = None
              \<or> batch_Hash batch \<noteq> Some (Payload_Hash ff (batch_Payload batch)) then
        (None, batch, w)
      else if batch_Author batch \<noteq> author then
        (None, batch, w)
      else
        (let batch' = batch\<lparr>batch_Confirmed := Some now\<rparr> in
         case call_UpsertBatch p batch' False w of
           (Some err, w1) \<Rightarrow>
             if err = HashMismatch then (None, batch', w1) else (Some err, batch', w1)
         | (None, w1) \<Rightarrow>
             persistBatchTransaction ff p now batch' author protocolTxId additionalInfo w1))"

subsection \<open>Reading the log\<close>

text \<open>The calls made between a world and a later one.\<close>

definition newCalls :: "'db world \<Rightarrow> 'db world \<Rightarrow> plugin_call list" where
  "newCalls w w' = drop (length (calls w)) (calls w')"

text \<open>The \<open>allowHashUpdate\<close> argument of an upsert.\<close>

fun allowHashUpdateOf :: "plugin_call \<Rightarrow> bool option" where
  "allowHashUpdateOf (OpUpsertBatch b f r) = Some f"
| "allowHashUpdateOf (OpUpsertTransaction t f r) = Some f"
| "allowHashUpdateOf (OpUpsertData x f r) = Some f"
| "allowHashUpdateOf (OpUpsertMessage x f r) = Some f"
| "allowHashUpdateOf c = None"

text \<open>The error an upsert answered with.\<close>

fun upsertError :: "plugin_call \<Rightarrow> error option" where
  "upsertError (OpUpsertBatch b f r) = r"
| "upsertError (OpUpsertTransaction t f r) = r"
| "upsertError (OpUpsertData x f r) = r"
| "upsertError (OpUpsertMessage x f r) = r"
| "upsertError c = None"

text \<open>The upserts of the batch and of its transaction, as opposed to those of the entries.\<close>

fun headUpsert :: "plugin_call \<Rightarrow> bool" where
  "headUpsert (OpUpsertBatch b f r) = True"
| "headUpsert (OpUpsertTransaction t f r) = True"
| "headUpsert c = False"

fun eventInsert :: "plugin_call \<Rightarrow> bool" where
  "eventInsert (OpInsertEvent e r) = True"
| "eventInsert c = False"

text \<open>
  Two properties of a stretch of the log, with the error \<open>r\<close> returned at its end, that the
  proofs carry through the loops. \<open>entryCalls\<close>: the calls are upserts of entries with
  \<open>allowHashUpdate = false\<close>, and a call that answered an error other than \<open>HashMismatch\<close>
  has its error returned. \<open>classified\<close>: the same for every upsert, and an upsert of the batch
  or of the transaction that answered \<open>HashMismatch\<close> is the last call, with \<open>nil\<close> returned.
\<close>

definition entryCalls :: "error option \<Rightarrow> plugin_call list \<Rightarrow> bool" where
  "entryCalls r cs \<longleftrightarrow>
     (\<forall>c \<in> set cs. allowHashUpdateOf c = Some False \<and> \<not> headUpsert c \<and> \<not> eventInsert c
        \<and> (\<forall>e. upsertError c = Some e \<and> e \<noteq> HashMismatch \<longrightarrow> r = Some e))"

definition classified :: "error option \<Rightarrow> plugin_call list \<Rightarrow> bool" where
  "classified r cs \<longleftrightarrow>
     (\<forall>c \<in> set cs. allowHashUpdateOf c \<noteq> Some True \<and> \<not> eventInsert c
        \<and> (\<forall>e. upsertError c = Some e \<and> e \<noteq> HashMismatch \<longrightarrow> r = Some e)
        \<and> (headUpsert c \<and> upsertError c = Some HashMismatch \<longrightarrow> r = None \<and> c = last cs))"

subsection \<open>Concrete inputs\<close>

text \<open>
  Plugins that answer every call with a fixed result: \<open>rb\<close> for the batch upsert, \<open>rg\<close> for
  the transaction read, \<open>rt\<close>, \<open>rd\<close> and \<open>rm\<close> for the upserts of the transaction, of a data
  entry and of a message.
\<close>

definition fixedPlugins ::
  "error option \<Rightarrow> Transaction option \<times> error option \<Rightarrow> error option \<Rightarrow> error option
     \<Rightarrow> error option \<Rightarrow> unit plugins" where
  "fixedPlugins rb rg rt rd rm =
     \<lparr>UpsertBatch = (\<lambda>b f d. (rb, d)),
      GetTransactionById = (\<lambda>ns i d. (rg, d)),
      UpsertTransaction = (\<lambda>t f d. (rt, d)),
      UpsertData = (\<lambda>x f d. (rd, d)),
      UpsertMessage = (\<lambda>x f d. (rm, d)),
      InsertEvent = (\<lambda>e d. (None, d))\<rparr>"

definition sampleFftypes :: fftypes where
  "sampleFftypes =
     \<lparr>Payload_Hash = (\<lambda>pl. ''h1''),
      Subject_Hash = (\<lambda>sj. ''hs''),
      Value_Hash = (\<lambda>v. Inr v),
      Verify = (\<lambda>m. if msg_Hash m = None then Some (OtherError ''no hash'') else None)\<rparr>"

definition sampleMessage :: Message where
  "sampleMessage =
     \<lparr>msg_Header = \<lparr>header_ID = Some ''M1''\<rparr>, msg_Hash = Some ''hm'', msg_BatchID = None,
      msg_Confirmed = None\<rparr>"

definition sampleData :: Data where
  "sampleData = \<lparr>data_ID = Some ''D1'', data_Hash = Some ''v'', data_Value = ''v''\<rparr>"

definition samplePayload :: BatchPayload where
  "samplePayload =
     \<lparr>payload_TX = \<lparr>txref_Type = ''pin'', txref_ID = Some ''T1''\<rparr>,
      payload_Messages = [Some sampleMessage],
      payload_Data = [Some sampleData]\<rparr>"

definition sampleBatch :: Batch where
  "sampleBatch =
     \<lparr>batch_ID = Some ''B1'', batch_Namespace = ''ns1'', batch_Author = ''A'',
      batch_Hash = Some ''h1'', batch_Payload = samplePayload, batch_Confirmed = None\<rparr>"

definition sampleTransaction :: "string \<Rightarrow> Transaction" where
  "sampleTransaction a =
     \<lparr>tx_ID = Some ''T1'',
      tx_Subject = \<lparr>subj_Type = ''pin'', subj_Author = a, subj_Namespace = ''ns1'',
                    subj_Batch = Some ''B1''\<rparr>,
      tx_Hash = Some ''hs'', tx_Confirmed = None, tx_ProtocolID = [], tx_Info = [],
      tx_Status = ''pending''\<rparr>"

definition emptyWorld :: "unit world" where
  "emptyWorld = \<lparr>db = (), calls = []\<rparr>"

section \<open>The subscription table (contract of package sqlcommon)\<close>

record Subscription =
  sub_ID :: "uuid option"
  sub_Namespace :: string
  sub_Name :: string
  sub_Transport :: string
  sub_Filter :: SubscriptionFilter
  sub_Options :: SubscriptionOptions
  sub_Created :: "fftime option"

definition sameKey :: "string \<Rightarrow> string \<Rightarrow> Subscription \<Rightarrow> bool" where
  "sameKey ns name row \<longleftrightarrow> sub_Namespace row = ns \<and> sub_Name row = name"

text \<open>
  Modelled from the spec: \<open>GetSubscription\<close> is not in the sources, only its test is.
  Section 4.4 of the spec: \<open>getSubscription(namespace, name)\<close> returns the subscription or
  null. The table is the list of its rows.
\<close>

definition getSubscription :: "Subscription list \<Rightarrow> string \<Rightarrow> string \<Rightarrow> Subscription option" where
  "getSubscription rows ns name = find (sameKey ns name) rows"

fun updateRow :: "string \<Rightarrow> string \<Rightarrow> Subscription \<Rightarrow> Subscription list \<Rightarrow> Subscription list" where
  "updateRow ns name sub [] = []"
| "updateRow ns name sub (row # rows) =
     (if sameKey ns name row then sub # rows else row # updateRow ns name sub rows)"

text \<open>
  Modelled from the spec: \<open>UpsertSubscription\<close> is not in the sources, only its test is.
  Section 4.4 of the spec: if an existing row has the same (namespace, name), update in
  place; if the caller-supplied id is non-null and differs from the stored id, fail with
  \<open>IDMismatch\<close>; otherwise insert. The id of a subscription inserted without one is generated
  (scenario 4 of the spec, and the test's \<open>ID: nil, // generated for us\<close>): \<open>fresh\<close> is the
  UUID generated at this call. The test compares the caller's object after the call with the
  row read back, so the function returns that object too, with the id of the row.
\<close>

definition upsertSubscription ::
  "uuid \<Rightarrow> Subscription \<Rightarrow> bool \<Rightarrow> Subscription list
     \<Rightarrow> error option \<times> Subscription \<times> Subscription list" where
  "upsertSubscription fresh sub allowExisting rows =
     (case getSubscription rows (sub_Namespace sub) (sub_Name sub) of
        Some existing \<Rightarrow>
          if sub_ID sub \<noteq> None \<and> sub_ID sub \<noteq> sub_ID existing then (Some IDMismatch, sub, rows)
          else
            (let sub' = sub\<lparr>sub_ID := sub_ID existing\<rparr>
             in (None, sub', updateRow (sub_Namespace sub) (sub_Name sub) sub' rows))
      | None \<Rightarrow>
          (let sub' = (if sub_ID sub = None then sub\<lparr>sub_ID := Some fresh\<rparr> else sub)
           in (None, sub', rows @ [sub'])))"












text \<open>The subscriptions of \<open>TestSubscriptionsE2EWithDB\<close>.\<close>

definition subscription1 :: Subscription where
  "subscription1 =
     \<lparr>sub_ID = None, sub_Namespace = ''ns1'', sub_Name = ''subscription1'', sub_Transport = [],
      sub_Filter = emptyFilter, sub_Options = emptyOptions, sub_Created = Some 1\<rparr>"

definition subscriptionUpdated :: Subscription where
  "subscriptionUpdated =
     \<lparr>sub_ID = Some ''Y'', sub_Namespace = ''ns1'', sub_Name = ''subscription1'',
      sub_Transport = ''websockets'',
      sub_Filter = \<lparr>filter_Events = ''DataArrivedBroadcast'', filter_Topic = ''topic.*'',
                    filter_Context = ''context.*'', filter_Group = ''group.*''\<rparr>,
      sub_Options = \<lparr>opt_FirstEvent = Some ''newest'', opt_BatchEnabled = Some True,
                     opt_BatchTimeout = Some 500, opt_BatchSize = Some 50\<rparr>,
      sub_Created = Some 2\<rparr>"

section \<open>Theorems: the event-stream client\<close>

text \<open>
  Claim C8, as the spec has it: every ack frame the consumer client sends echoes the id of
  the delivery it acknowledges, \<open>{type: "ack", id}\<close>. The client does not: for the message
  \<open>[]\<close> it sends the frame \<open>{type: "ack", topic: "dev"}\<close>, which has no \<open>id\<close> property.
\<close>

theorem ackFrame_counterexample:
  "fst (onMessage sampleConfig sampleSignatures quietHandlers ''[]'' ()) =
     [[(''type'', ''ack''), (''topic'', ''dev'')]]
   \<and> map_of (ackFrame sampleConfig) ''id'' = None"
  by (simp add: onMessage_def handleMessage_def quietHandlers_def ackFrame_def sampleConfig_def)

text \<open>
  Claim C8, amended: every frame the \<open>message\<close> handler sends is
  \<open>{type: "ack", topic: config.eventStreams.topic}\<close>; it names the configured topic and has
  no \<open>id\<close> property, whatever the message was.
\<close>

theorem ack_frame_carries_topic:
  "f \<in> set (fst (onMessage cfg sigs h message s)) \<Longrightarrow>
     f = [(''type'', ''ack''), (''topic'', topic cfg)] \<and> map_of f ''id'' = None"
  by (auto simp add: onMessage_def ackFrame_def split: prod.splits bool.splits)

theorem ack_frame_carries_topic_witness:
  "[(''type'', ''ack''), (''topic'', ''dev'')]
      \<in> set (fst (onMessage sampleConfig sampleSignatures quietHandlers ''[]'' ()))
   \<and> map_of [(''type'', ''ack''), (''topic'', ''dev'')] ''id'' = None"
proof -
  have m: "[(''type'', ''ack''), (''topic'', ''dev'')]
      \<in> set (fst (onMessage sampleConfig sampleSignatures quietHandlers ''[]'' ()))"
    by (simp add: onMessage_def handleMessage_def quietHandlers_def ackFrame_def sampleConfig_def)
  from ack_frame_carries_topic [OF m] m show ?thesis by simp
qed

section \<open>Theorems: the WebSocket transport\<close>

text \<open>
  Claim C7: \<open>start\<close> with \<open>ephemeral = true\<close> calls \<open>EphemeralSubscription\<close> for the
  connection and returns its result, whatever namespace and name are; otherwise, with an
  empty namespace or name, it returns the \<open>MsgWSInvalidStartAction\<close> error and leaves the
  connection manager as it was; otherwise it registers, for the connection, a matcher that
  admits a \<open>SubscriptionRef\<close> exactly when its namespace and name are those of the payload,
  and returns \<open>nil\<close>.
\<close>

theorem start_behaviour:
  "(start_Ephemeral st \<longrightarrow>
      start cbs connID st m =
        (fst (EphemeralSubscription cbs connID (start_Filter st) (start_Options st) (cm m)),
         \<lparr>cm = snd (EphemeralSubscription cbs connID (start_Filter st) (start_Options st) (cm m)),
          cb_calls = cb_calls m @
            [CallEphemeralSubscription connID (start_Filter st) (start_Options st)]\<rparr>))
   \<and> (\<not> start_Ephemeral st \<and> (start_Namespace st = [] \<or> start_Name st = []) \<longrightarrow>
      start cbs connID st m = (Some MsgWSInvalidStartAction, m))
   \<and> (\<not> start_Ephemeral st \<and> start_Namespace st \<noteq> [] \<and> start_Name st \<noteq> [] \<longrightarrow>
      (\<exists>matcher.
         start cbs connID st m =
           (None, \<lparr>cm = RegisterConnection cbs connID matcher (cm m),
                   cb_calls = cb_calls m @ [CallRegisterConnection connID matcher]\<rparr>)
         \<and> (\<forall>sr. matcher sr \<longleftrightarrow>
               ref_Namespace sr = start_Namespace st \<and> ref_Name sr = start_Name st)))"
  by (auto simp add: start_def startMatcher_def split: prod.splits)

theorem start_behaviour_witness:
  "start countingCallbacks ''c1'' (sampleStart True [] []) \<lparr>cm = 0, cb_calls = []\<rparr> =
     (None, \<lparr>cm = 1, cb_calls = [CallEphemeralSubscription ''c1'' emptyFilter emptyOptions]\<rparr>)
   \<and> start countingCallbacks ''c1'' (sampleStart False [] ''sub1'') \<lparr>cm = 0, cb_calls = []\<rparr> =
     (Some MsgWSInvalidStartAction, \<lparr>cm = 0, cb_calls = []\<rparr>)
   \<and> (\<exists>matcher.
        start countingCallbacks ''c1'' (sampleStart False ''ns1'' ''sub1'') \<lparr>cm = 0, cb_calls = []\<rparr> =
          (None, \<lparr>cm = 1, cb_calls = [CallRegisterConnection ''c1'' matcher]\<rparr>)
        \<and> matcher \<lparr>ref_Namespace = ''ns1'', ref_Name = ''sub1''\<rparr>
        \<and> \<not> matcher \<lparr>ref_Namespace = ''ns1'', ref_Name = ''sub2''\<rparr>)"
proof -
  let ?m0 = "\<lparr>cm = 0::nat, cb_calls = []\<rparr>"
  have a: "start_Ephemeral (sampleStart True [] [])"
    by (simp add: sampleStart_def)
  have b: "\<not> start_Ephemeral (sampleStart False [] ''sub1'')
      \<and> (start_Namespace (sampleStart False [] ''sub1'') = []
           \<or> start_Name (sampleStart False [] ''sub1'') = [])"
    by (simp add: sampleStart_def)
  have c: "\<not> start_Ephemeral (sampleStart False ''ns1'' ''sub1'')
      \<and> start_Namespace (sampleStart False ''ns1'' ''sub1'') \<noteq> []
      \<and> start_Name (sampleStart False ''ns1'' ''sub1'') \<noteq> []"
    by (simp add: sampleStart_def)
  note t1 = start_behaviour [of "sampleStart True [] []" countingCallbacks "''c1''" ?m0]
  note t2 = start_behaviour [of "sampleStart False [] ''sub1''" countingCallbacks "''c1''" ?m0]
  note t3 = start_behaviour [of "sampleStart False ''ns1'' ''sub1''" countingCallbacks "''c1''" ?m0]
  from t1 a have p1: "start countingCallbacks ''c1'' (sampleStart True [] []) ?m0 =
     (None, \<lparr>cm = 1, cb_calls = [CallEphemeralSubscription ''c1'' emptyFilter emptyOptions]\<rparr>)"
    by (simp add: sampleStart_def countingCallbacks_def)
  from t2 b have p2: "start countingCallbacks ''c1'' (sampleStart False [] ''sub1'') ?m0 =
     (Some MsgWSInvalidStartAction, ?m0)"
    by blast
  from t3 c obtain matcher where
    m: "start countingCallbacks ''c1'' (sampleStart False ''ns1'' ''sub1'') ?m0 =
          (None, \<lparr>cm = RegisterConnection countingCallbacks ''c1'' matcher (cm ?m0),
                  cb_calls = cb_calls ?m0 @ [CallRegisterConnection ''c1'' matcher]\<rparr>)"
    and ms: "\<forall>sr. matcher sr \<longleftrightarrow>
               ref_Namespace sr = start_Namespace (sampleStart False ''ns1'' ''sub1'')
               \<and> ref_Name sr = start_Name (sampleStart False ''ns1'' ''sub1'')"
    by blast
  from m have p3: "start countingCallbacks ''c1'' (sampleStart False ''ns1'' ''sub1'') ?m0 =
          (None, \<lparr>cm = 1, cb_calls = [CallRegisterConnection ''c1'' matcher]\<rparr>)"
    by (simp add: countingCallbacks_def)
  from ms have p4: "matcher \<lparr>ref_Namespace = ''ns1'', ref_Name = ''sub1''\<rparr>
        \<and> \<not> matcher \<lparr>ref_Namespace = ''ns1'', ref_Name = ''sub2''\<rparr>"
    by (simp add: sampleStart_def)
  from p1 p2 p3 p4 show ?thesis by blast
qed

section \<open>Theorems: the batch aggregator\<close>

subsection \<open>The log of a run of persistBatch\<close>

lemma entryCalls_Nil: "entryCalls r []"
  by (simp add: entryCalls_def)

lemma entryCalls_append:
  "entryCalls None cs1 \<Longrightarrow> entryCalls r cs2 \<Longrightarrow> entryCalls r (cs1 @ cs2)"
  by (auto simp add: entryCalls_def)

lemma entryCalls_classified: "entryCalls r cs \<Longrightarrow> classified r cs"
  by (auto simp add: entryCalls_def classified_def)

lemma classified_Cons:
  "classified r cs \<Longrightarrow> allowHashUpdateOf c \<noteq> Some True \<Longrightarrow> \<not> eventInsert c
     \<Longrightarrow> upsertError c = None \<Longrightarrow> classified r (c # cs)"
  by (auto simp add: classified_def)

lemma persistBatchData_log:
  "persistBatchData ff p batch i dat w = (r, w') \<Longrightarrow>
     \<exists>cs. calls w' = calls w @ cs \<and> entryCalls r cs"
  by (auto simp add: persistBatchData_def call_UpsertData_def entryCalls_def
      split: option.splits sum.splits if_splits prod.splits)

lemma persistDataEntries_log:
  "persistDataEntries ff p batch i ds w = (r, w') \<Longrightarrow>
     \<exists>cs. calls w' = calls w @ cs \<and> entryCalls r cs"
proof (induction ds arbitrary: i w)
  case Nil
  then show ?case by (simp add: entryCalls_Nil)
next
  case (Cons d ds)
  obtain r1 w1 where step: "persistBatchData ff p batch i d w = (r1, w1)"
    by (cases "persistBatchData ff p batch i d w")
  from persistBatchData_log [OF step] obtain cs1 where
    cs1: "calls w1 = calls w @ cs1" "entryCalls r1 cs1" by blast
  show ?case
  proof (cases r1)
    case None
    with Cons.prems step have rest: "persistDataEntries ff p batch (Suc i) ds w1 = (r, w')"
      by simp
    from Cons.IH [OF rest] obtain cs2 where
      cs2: "calls w' = calls w1 @ cs2" "entryCalls r cs2" by blast
    from cs1 cs2 None have "calls w' = calls w @ (cs1 @ cs2)" "entryCalls r (cs1 @ cs2)"
      by (simp_all add: entryCalls_append)
    then show ?thesis by blast
  next
    case (Some e)
    with Cons.prems step have "r = r1" "w' = w1" by simp_all
    with cs1 show ?thesis by blast
  qed
qed

lemma persistBatchMessage_log:
  "persistBatchMessage ff p batch now i msg w = (r, msg', w') \<Longrightarrow>
     \<exists>cs. calls w' = calls w @ cs \<and> entryCalls r cs"
  by (auto simp add: persistBatchMessage_def call_UpsertMessage_def entryCalls_def Let_def
      split: option.splits if_splits prod.splits)

lemma persistMessageEntries_log:
  "persistMessageEntries ff p batch now i ms w = (r, ms', w') \<Longrightarrow>
     \<exists>cs. calls w' = calls w @ cs \<and> entryCalls r cs"
proof (induction ms arbitrary: i w ms' r w')
  case Nil
  then show ?case by (simp add: entryCalls_Nil)
next
  case (Cons m ms)
  obtain r1 m1 w1 where step: "persistBatchMessage ff p batch now i m w = (r1, m1, w1)"
    by (cases "persistBatchMessage ff p batch now i m w")
  from persistBatchMessage_log [OF step] obtain cs1 where
    cs1: "calls w1 = calls w @ cs1" "entryCalls r1 cs1" by blast
  show ?case
  proof (cases r1)
    case None
    obtain r2 ms2 w2 where rest: "persistMessageEntries ff p batch now (Suc i) ms w1 = (r2, ms2, w2)"
      by (cases "persistMessageEntries ff p batch now (Suc i) ms w1")
    with Cons.prems step None have eq: "r = r2" "w' = w2" by simp_all
    from Cons.IH [OF rest] obtain cs2 where
      cs2: "calls w2 = calls w1 @ cs2" "entryCalls r2 cs2" by blast
    from cs1 cs2 None eq have "calls w' = calls w @ (cs1 @ cs2)" "entryCalls r (cs1 @ cs2)"
      by (simp_all add: entryCalls_append)
    then show ?thesis by blast
  next
    case (Some e)
    with Cons.prems step have "r = r1" "w' = w1" by simp_all
    with cs1 show ?thesis by blast
  qed
qed

lemma persistBatchEntries_log:
  "persistBatchEntries ff p now batch w = (r, b', w') \<Longrightarrow>
     \<exists>cs. calls w' = calls w @ cs \<and> entryCalls r cs"
proof -
  assume a: "persistBatchEntries ff p now batch w = (r, b', w')"
  obtain r1 w1 where d: "persistDataEntries ff p batch 0 (payload_Data (batch_Payload batch)) w = (r1, w1)"
    by (cases "persistDataEntries ff p batch 0 (payload_Data (batch_Payload batch)) w")
  from persistDataEntries_log [OF d] obtain cs1 where
    cs1: "calls w1 = calls w @ cs1" "entryCalls r1 cs1" by blast
  show ?thesis
  proof (cases r1)
    case None
    obtain r2 ms2 w2 where
      m: "persistMessageEntries ff p batch now 0 (payload_Messages (batch_Payload batch)) w1 = (r2, ms2, w2)"
      by (cases "persistMessageEntries ff p batch now 0 (payload_Messages (batch_Payload batch)) w1")
    with a d None have eq: "r = r2" "w' = w2" by (simp_all add: persistBatchEntries_def)
    from persistMessageEntries_log [OF m] obtain cs2 where
      cs2: "calls w2 = calls w1 @ cs2" "entryCalls r2 cs2" by blast
    from cs1 cs2 None eq have "calls w' = calls w @ (cs1 @ cs2)" "entryCalls r (cs1 @ cs2)"
      by (simp_all add: entryCalls_append)
    then show ?thesis by blast
  next
    case (Some e)
    with a d have "r = r1" "w' = w1" by (simp_all add: persistBatchEntries_def)
    with cs1 show ?thesis by blast
  qed
qed

lemma classified_single:
  "allowHashUpdateOf c \<noteq> Some True \<Longrightarrow> \<not> eventInsert c
     \<Longrightarrow> (\<forall>e. upsertError c = Some e \<and> e \<noteq> HashMismatch \<longrightarrow> r = Some e)
     \<Longrightarrow> (upsertError c = Some HashMismatch \<longrightarrow> r = None)
     \<Longrightarrow> classified r [c]"
  by (auto simp add: classified_def)

lemma persistBatchTransaction_alt:
  "persistBatchTransaction ff p now batch author protocolTxId additionalInfo w =
     (case call_GetTransactionById p (batch_Namespace batch)
             (txref_ID (payload_TX (batch_Payload batch))) w of
        ((found, _), w1) \<Rightarrow>
          (case (case found of
                   None \<Rightarrow> Some (newTransaction ff batch author)
                 | Some tx \<Rightarrow> if subjectMismatch tx batch author then None else Some tx) of
             None \<Rightarrow> (None, batch, w1)
           | Some tx \<Rightarrow>
               (case call_UpsertTransaction p
                       (confirmTransaction tx now protocolTxId additionalInfo) False w1 of
                  (Some err, w2) \<Rightarrow>
                    if err = HashMismatch then (None, batch, w2) else (Some err, batch, w2)
                | (None, w2) \<Rightarrow> persistBatchEntries ff p now batch w2)))"
  by (simp add: persistBatchTransaction_def persistBatchConfirmed_def
      split: prod.splits option.splits)

lemma persistBatchTransaction_log:
  assumes "persistBatchTransaction ff p now batch author protocolTxId additionalInfo w = (r, b', w')"
  shows "\<exists>cs. calls w' = calls w @ cs \<and> classified r cs"
proof -
  obtain found ge w1 where
    g: "call_GetTransactionById p (batch_Namespace batch)
          (txref_ID (payload_TX (batch_Payload batch))) w = ((found, ge), w1)"
    by (metis prod.exhaust)
  let ?get = "OpGetTransactionById (batch_Namespace batch)
          (txref_ID (payload_TX (batch_Payload batch))) found ge"
  from g have c1: "calls w1 = calls w @ [?get]"
    by (auto simp add: call_GetTransactionById_def split: prod.splits)
  let ?chosen = "case found of
                   None \<Rightarrow> Some (newTransaction ff batch author)
                 | Some tx \<Rightarrow> if subjectMismatch tx batch author then None else Some tx"
  show ?thesis
  proof (cases ?chosen)
    case None
    with assms g have "r = None" "w' = w1"
      by (simp_all add: persistBatchTransaction_alt)
    with c1 have "calls w' = calls w @ [?get]" "classified r [?get]"
      by (simp_all add: classified_def)
    then show ?thesis by blast
  next
    case (Some tx)
    let ?tx = "confirmTransaction tx now protocolTxId additionalInfo"
    obtain rt w2 where u: "call_UpsertTransaction p ?tx False w1 = (rt, w2)"
      by (cases "call_UpsertTransaction p ?tx False w1")
    then have c2: "calls w2 = calls w1 @ [OpUpsertTransaction ?tx False rt]"
      by (auto simp add: call_UpsertTransaction_def split: prod.splits)
    show ?thesis
    proof (cases rt)
      case None
      with assms g Some u have e: "persistBatchEntries ff p now batch w2 = (r, b', w')"
        by (simp add: persistBatchTransaction_alt)
      from persistBatchEntries_log [OF e] obtain cs where
        cs: "calls w' = calls w2 @ cs" "entryCalls r cs" by blast
      from cs(2) have "classified r cs" by (rule entryCalls_classified)
      with None have "classified r (?get # OpUpsertTransaction ?tx False rt # cs)"
        by (simp add: classified_Cons)
      moreover from cs c1 c2 have "calls w' = calls w @ (?get # OpUpsertTransaction ?tx False rt # cs)"
        by simp
      ultimately show ?thesis by blast
    next
      case (Some err)
      with assms g \<open>?chosen = Some tx\<close> u
      have "r = (if err = HashMismatch then None else Some err)" "w' = w2"
        by (auto simp add: persistBatchTransaction_alt split: if_splits)
      with Some have "classified r [OpUpsertTransaction ?tx False rt]"
        by (auto simp add: classified_def)
      then have "classified r (?get # [OpUpsertTransaction ?tx False rt])"
        by (simp add: classified_Cons)
      moreover from \<open>w' = w2\<close> c1 c2 have "calls w' = calls w @ (?get # [OpUpsertTransaction ?tx False rt])"
        by simp
      ultimately show ?thesis by blast
    qed
  qed
qed

lemma persistBatch_log:
  assumes "persistBatch ff p now batch author protocolTxId additionalInfo w = (r, b', w')"
  shows "\<exists>cs. calls w' = calls w @ cs \<and> classified r cs"
proof (cases "batch_ID batch = None \<or> txref_ID (payload_TX (batch_Payload batch)) = None
     \<or> batch_Hash batch = None
     \<or> batch_Hash batch \<noteq> Some (Payload_Hash ff (batch_Payload batch))
     \<or> batch_Author batch \<noteq> author")
  case True
  with assms have "w' = w" by (auto simp add: persistBatch_def split: if_splits)
  then have "calls w' = calls w @ []" "classified r []" by (simp_all add: classified_def)
  then show ?thesis by blast
next
  case False
  let ?b = "batch\<lparr>batch_Confirmed := Some now\<rparr>"
  obtain rb w1 where u: "call_UpsertBatch p ?b False w = (rb, w1)"
    by (cases "call_UpsertBatch p ?b False w")
  then have c1: "calls w1 = calls w @ [OpUpsertBatch ?b False rb]"
    by (auto simp add: call_UpsertBatch_def split: prod.splits)
  show ?thesis
  proof (cases rb)
    case None
    with assms False u
    have t: "persistBatchTransaction ff p now ?b author protocolTxId additionalInfo w1 = (r, b', w')"
      by (auto simp add: persistBatch_def Let_def split: if_splits)
    from persistBatchTransaction_log [OF t] obtain cs where
      cs: "calls w' = calls w1 @ cs" "classified r cs" by blast
    from cs(2) None have "classified r (OpUpsertBatch ?b False rb # cs)"
      by (simp add: classified_Cons)
    moreover from cs c1 have "calls w' = calls w @ (OpUpsertBatch ?b False rb # cs)" by simp
    ultimately show ?thesis by blast
  next
    case (Some err)
    with assms False u
    have "r = (if err = HashMismatch then None else Some err)" "w' = w1"
      by (auto simp add: persistBatch_def Let_def split: if_splits)
    with Some have "classified r [OpUpsertBatch ?b False rb]"
      by (auto simp add: classified_def)
    with \<open>w' = w1\<close> c1 show ?thesis by blast
  qed
qed

lemmas sample_defs = sampleBatch_def samplePayload_def sampleMessage_def sampleData_def
  sampleFftypes_def fixedPlugins_def emptyWorld_def sampleTransaction_def

lemmas persist_defs = persistBatch_def persistBatchTransaction_def persistBatchConfirmed_def
  persistBatchEntries_def
  persistBatchData_def persistBatchMessage_def call_UpsertBatch_def call_GetTransactionById_def
  call_UpsertTransaction_def call_UpsertData_def call_UpsertMessage_def newTransaction_def
  confirmTransaction_def subjectMismatch_def TransactionTypePin_def TransactionStatusConfirmed_def
  Let_def

lemma newCalls_append: "calls w' = calls w @ cs \<Longrightarrow> newCalls w w' = cs"
  by (simp add: newCalls_def)

lemma persistDataEntries_skip:
  "data_Hash d = Some h \<Longrightarrow> Value_Hash ff (data_Value d) = Inr h
     \<Longrightarrow> UpsertData p d False (db w0) = (Some HashMismatch, dd)
     \<Longrightarrow> persistDataEntries ff p batch i (Some d # rest) w0 =
         persistDataEntries ff p batch (Suc i) rest
           \<lparr>db = dd, calls = calls w0 @ [OpUpsertData d False (Some HashMismatch)]\<rparr>"
  by (simp add: persistBatchData_def call_UpsertData_def)

lemma persistMessageEntries_skip:
  "Verify ff m = None
     \<Longrightarrow> UpsertMessage p (m\<lparr>msg_Confirmed := Some now, msg_BatchID := batch_ID batch\<rparr>) False (db w0)
           = (Some HashMismatch, dd)
     \<Longrightarrow> persistMessageEntries ff p batch now i (Some m # rest) w0 =
         (case persistMessageEntries ff p batch now (Suc i) rest
                 \<lparr>db = dd, calls = calls w0 @
                    [OpUpsertMessage (m\<lparr>msg_Confirmed := Some now, msg_BatchID := batch_ID batch\<rparr>)
                       False (Some HashMismatch)]\<rparr> of
            (r, rest', w'') \<Rightarrow>
              (r, Some (m\<lparr>msg_Confirmed := Some now, msg_BatchID := batch_ID batch\<rparr>) # rest', w''))"
  by (simp add: persistBatchMessage_def call_UpsertMessage_def Let_def)

subsection \<open>Validation\<close>

text \<open>
  Claim C3: when \<open>batch.ID\<close> is \<open>nil\<close>, or \<open>batch.Payload.TX.ID\<close> is \<open>nil\<close>, or \<open>batch.Hash\<close>
  is \<open>nil\<close> or differs from the recomputed hash of the payload, or \<open>batch.Author\<close> differs
  from the author the ledger supplied, \<open>persistBatch\<close> returns \<open>nil\<close> and calls no plugin:
  the world, log included, and the batch are as they were.
\<close>

theorem persistBatch_skips_invalid:
  "batch_ID batch = None
     \<or> txref_ID (payload_TX (batch_Payload batch)) = None
     \<or> batch_Hash batch = None
     \<or> batch_Hash batch \<noteq> Some (Payload_Hash ff (batch_Payload batch))
     \<or> batch_Author batch \<noteq> author
   \<Longrightarrow> persistBatch ff p now batch author protocolTxId additionalInfo w = (None, batch, w)
       \<and> newCalls w (snd (snd (persistBatch ff p now batch author protocolTxId additionalInfo w))) = []"
  by (auto simp add: persistBatch_def newCalls_def)

theorem persistBatch_skips_invalid_witness:
  "batch_Author sampleBatch \<noteq> ''B''
   \<and> persistBatch sampleFftypes (fixedPlugins None (None, None) None None None) 7 sampleBatch
        ''B'' ''0x01'' [] emptyWorld = (None, sampleBatch, emptyWorld)"
proof -
  have h: "batch_Author sampleBatch \<noteq> ''B''"
    by (simp add: sampleBatch_def)
  then have "batch_ID sampleBatch = None
     \<or> txref_ID (payload_TX (batch_Payload sampleBatch)) = None
     \<or> batch_Hash sampleBatch = None
     \<or> batch_Hash sampleBatch \<noteq> Some (Payload_Hash sampleFftypes (batch_Payload sampleBatch))
     \<or> batch_Author sampleBatch \<noteq> ''B''"
    by blast
  from persistBatch_skips_invalid [OF this] h show ?thesis by blast
qed

subsection \<open>Database failures\<close>

text \<open>
  Claim C2 says that a failure of any database operation, reads included, other than the
  sentinel makes \<open>persistBatch\<close> return an error. The read on line 170 drops its error
  (\<open>tx, _ := a.database.GetTransactionById(...)\<close>): with a store whose read fails with
  \<open>connection reset\<close> and whose upserts succeed, \<open>persistBatch\<close> returns \<open>nil\<close> for the batch
  of the happy path.
\<close>

theorem persistBatch_swallows_read_failure:
  "fst (persistBatch sampleFftypes
          (fixedPlugins None (None, Some (OtherError ''connection reset'')) None None None)
          7 sampleBatch ''A'' ''0x01'' [] emptyWorld) = None
   \<and> OpGetTransactionById ''ns1'' (Some ''T1'') None (Some (OtherError ''connection reset''))
       \<in> set (calls (snd (snd (persistBatch sampleFftypes
          (fixedPlugins None (None, Some (OtherError ''connection reset'')) None None None)
          7 sampleBatch ''A'' ''0x01'' [] emptyWorld))))"
  by (simp add: persist_defs sample_defs)

subsection \<open>The results of the upserts\<close>

text \<open>
  Claim C4: every upsert \<open>persistBatch\<close> makes has \<open>allowHashUpdate = false\<close>; an upsert
  that answers an error other than \<open>HashMismatch\<close> has that error returned by \<open>persistBatch\<close>;
  an upsert of the batch or of the transaction that answers \<open>HashMismatch\<close> is the last call
  and \<open>persistBatch\<close> returns \<open>nil\<close>; a data entry or a message entry whose upsert answers
  \<open>HashMismatch\<close> is skipped, and the loop goes on with the next entry.
\<close>

theorem persistBatch_upsert_classification:
  assumes "persistBatch ff p now batch author protocolTxId additionalInfo w = (r, b', w')"
  shows "(\<forall>c \<in> set (newCalls w w'). allowHashUpdateOf c \<noteq> Some True)
    \<and> (\<forall>c \<in> set (newCalls w w'). \<forall>e. upsertError c = Some e \<and> e \<noteq> HashMismatch \<longrightarrow> r = Some e)
    \<and> (\<forall>c \<in> set (newCalls w w'). headUpsert c \<and> upsertError c = Some HashMismatch
          \<longrightarrow> r = None \<and> c = last (newCalls w w'))
    \<and> (\<forall>d h dd i rest w0.
          data_Hash d = Some h \<and> Value_Hash ff (data_Value d) = Inr h
          \<and> UpsertData p d False (db w0) = (Some HashMismatch, dd)
          \<longrightarrow> persistDataEntries ff p batch i (Some d # rest) w0 =
                persistDataEntries ff p batch (Suc i) rest
                  \<lparr>db = dd, calls = calls w0 @ [OpUpsertData d False (Some HashMismatch)]\<rparr>)
    \<and> (\<forall>m dd i rest w0.
          Verify ff m = None
          \<and> UpsertMessage p (m\<lparr>msg_Confirmed := Some now, msg_BatchID := batch_ID batch\<rparr>) False
                (db w0) = (Some HashMismatch, dd)
          \<longrightarrow> persistMessageEntries ff p batch now i (Some m # rest) w0 =
                (case persistMessageEntries ff p batch now (Suc i) rest
                        \<lparr>db = dd, calls = calls w0 @
                           [OpUpsertMessage
                              (m\<lparr>msg_Confirmed := Some now, msg_BatchID := batch_ID batch\<rparr>)
                              False (Some HashMismatch)]\<rparr> of
                   (r, rest', w'') \<Rightarrow>
                     (r, Some (m\<lparr>msg_Confirmed := Some now, msg_BatchID := batch_ID batch\<rparr>) # rest',
                      w'')))"
proof -
  from persistBatch_log [OF assms] obtain cs where
    cs: "calls w' = calls w @ cs" and cl: "classified r cs" by blast
  from cs have n: "newCalls w w' = cs" by (rule newCalls_append)
  from cl have a: "\<forall>c \<in> set cs. allowHashUpdateOf c \<noteq> Some True"
    and b: "\<forall>c \<in> set cs. \<forall>e. upsertError c = Some e \<and> e \<noteq> HashMismatch \<longrightarrow> r = Some e"
    and c: "\<forall>c \<in> set cs. headUpsert c \<and> upsertError c = Some HashMismatch \<longrightarrow> r = None \<and> c = last cs"
    unfolding classified_def by blast+
  have d: "\<forall>d h dd i rest w0.
          data_Hash d = Some h \<and> Value_Hash ff (data_Value d) = Inr h
          \<and> UpsertData p d False (db w0) = (Some HashMismatch, dd)
          \<longrightarrow> persistDataEntries ff p batch i (Some d # rest) w0 =
                persistDataEntries ff p batch (Suc i) rest
                  \<lparr>db = dd, calls = calls w0 @ [OpUpsertData d False (Some HashMismatch)]\<rparr>"
    by (intro allI impI, elim conjE, rule persistDataEntries_skip)
  have e: "\<forall>m dd i rest w0.
          Verify ff m = None
          \<and> UpsertMessage p (m\<lparr>msg_Confirmed := Some now, msg_BatchID := batch_ID batch\<rparr>) False
                (db w0) = (Some HashMismatch, dd)
          \<longrightarrow> persistMessageEntries ff p batch now i (Some m # rest) w0 =
                (case persistMessageEntries ff p batch now (Suc i) rest
                        \<lparr>db = dd, calls = calls w0 @
                           [OpUpsertMessage
                              (m\<lparr>msg_Confirmed := Some now, msg_BatchID := batch_ID batch\<rparr>)
                              False (Some HashMismatch)]\<rparr> of
                   (r, rest', w'') \<Rightarrow>
                     (r, Some (m\<lparr>msg_Confirmed := Some now, msg_BatchID := batch_ID batch\<rparr>) # rest',
                      w''))"
    by (intro allI impI, elim conjE, rule persistMessageEntries_skip)
  from a b c d e n show ?thesis by simp
qed

theorem persistBatch_upsert_classification_witness:
  "fst (persistBatch sampleFftypes
          (fixedPlugins None (None, None) None (Some HashMismatch) (Some (OtherError ''disk full'')))
          7 sampleBatch ''A'' ''0x01'' [] emptyWorld) = Some (OtherError ''disk full'')
   \<and> OpUpsertData sampleData False (Some HashMismatch)
        \<in> set (calls (snd (snd (persistBatch sampleFftypes
          (fixedPlugins None (None, None) None (Some HashMismatch) (Some (OtherError ''disk full'')))
          7 sampleBatch ''A'' ''0x01'' [] emptyWorld))))"
proof -
  let ?p = "fixedPlugins None (None, None) None (Some HashMismatch) (Some (OtherError ''disk full''))"
  let ?run = "persistBatch sampleFftypes ?p 7 sampleBatch ''A'' ''0x01'' [] emptyWorld"
  let ?op = "OpUpsertMessage (sampleMessage\<lparr>msg_Confirmed := Some 7, msg_BatchID := Some ''B1''\<rparr>)
               False (Some (OtherError ''disk full''))"
  have run: "?run = (fst ?run, fst (snd ?run), snd (snd ?run))" by simp
  have m: "?op \<in> set (newCalls emptyWorld (snd (snd ?run)))"
    by (simp add: persist_defs sample_defs newCalls_def)
  have d: "OpUpsertData sampleData False (Some HashMismatch) \<in> set (calls (snd (snd ?run)))"
    by (simp add: persist_defs sample_defs)
  from persistBatch_upsert_classification [OF run] m
  have "\<forall>e. upsertError ?op = Some e \<and> e \<noteq> HashMismatch \<longrightarrow> fst ?run = Some e"
    by blast
  then have "fst ?run = Some (OtherError ''disk full'')" by simp
  with d show ?thesis by blast
qed

subsection \<open>Accepted messages\<close>

lemma persistBatchMessage_upserts:
  assumes "persistBatchMessage ff p batch now i (Some m) w = (None, m', w')"
    and "Verify ff m = None"
  shows "\<exists>er. (er = None \<or> er = Some HashMismatch)
           \<and> calls w' = calls w @
               [OpUpsertMessage (m\<lparr>msg_Confirmed := Some now, msg_BatchID := batch_ID batch\<rparr>)
                  False er]"
  using assms
  by (auto simp add: persistBatchMessage_def call_UpsertMessage_def Let_def
      split: option.splits if_splits prod.splits)

lemma persistMessageEntries_upserts:
  assumes "persistMessageEntries ff p batch now i ms w = (None, ms', w')"
    and "Some m \<in> set ms" and "Verify ff m = None"
  shows "\<exists>er. (er = None \<or> er = Some HashMismatch)
           \<and> OpUpsertMessage (m\<lparr>msg_Confirmed := Some now, msg_BatchID := batch_ID batch\<rparr>)
                False er \<in> set (newCalls w w')"
  using assms
proof (induction ms arbitrary: i w ms' w')
  case Nil
  then show ?case by simp
next
  case (Cons x xs)
  obtain r1 x1 w1 where step: "persistBatchMessage ff p batch now i x w = (r1, x1, w1)"
    by (cases "persistBatchMessage ff p batch now i x w")
  obtain r2 xs2 w2 where rest: "persistMessageEntries ff p batch now (Suc i) xs w1 = (r2, xs2, w2)"
    by (cases "persistMessageEntries ff p batch now (Suc i) xs w1")
  from Cons.prems(1) step rest have r1: "r1 = None" and r2: "r2 = None" and w2: "w2 = w'"
    by (auto split: option.splits)
  from persistBatchMessage_log [OF step] obtain cs1 where cs1: "calls w1 = calls w @ cs1"
    by blast
  from persistMessageEntries_log [OF rest] obtain cs2 where cs2: "calls w2 = calls w1 @ cs2"
    by blast
  from cs1 cs2 w2 have all: "newCalls w w' = cs1 @ cs2"
    by (simp add: newCalls_def)
  show ?case
  proof (cases "x = Some m")
    case True
    with step r1 have "persistBatchMessage ff p batch now i (Some m) w = (None, x1, w1)"
      by simp
    from persistBatchMessage_upserts [OF this Cons.prems(3)] obtain er where
      er: "er = None \<or> er = Some HashMismatch"
      and c: "calls w1 = calls w @
               [OpUpsertMessage (m\<lparr>msg_Confirmed := Some now, msg_BatchID := batch_ID batch\<rparr>)
                  False er]"
      by blast
    from c cs1 have "cs1 = [OpUpsertMessage
        (m\<lparr>msg_Confirmed := Some now, msg_BatchID := batch_ID batch\<rparr>) False er]"
      by simp
    with all er show ?thesis by auto
  next
    case False
    with Cons.prems(2) have "Some m \<in> set xs" by simp
    from Cons.IH [OF _ this Cons.prems(3)] rest r2 obtain er where
      er: "er = None \<or> er = Some HashMismatch"
      and c: "OpUpsertMessage (m\<lparr>msg_Confirmed := Some now, msg_BatchID := batch_ID batch\<rparr>)
                False er \<in> set (newCalls w1 w2)"
      by blast
    from cs2 have "newCalls w1 w2 = cs2" by (rule newCalls_append)
    with c all er show ?thesis by auto
  qed
qed

lemma entryCalls_no_event: "entryCalls r cs \<Longrightarrow> filter eventInsert cs = []"
  by (auto simp add: entryCalls_def filter_empty_conv)

lemma classified_no_event: "classified r cs \<Longrightarrow> filter eventInsert cs = []"
  by (auto simp add: classified_def filter_empty_conv)

lemma entryCalls_no_head: "entryCalls r cs \<Longrightarrow> c \<in> set cs \<Longrightarrow> \<not> headUpsert c"
  by (auto simp add: entryCalls_def)

text \<open>A run whose log has a successful upsert of the transaction went on to the entries.\<close>

lemma persistBatchTransaction_reaches_entries:
  assumes run: "persistBatchTransaction ff p now batch author protocolTxId additionalInfo w = (r, b', w')"
    and ok: "OpUpsertTransaction t False None \<in> set (newCalls w w')"
  shows "\<exists>w2 cs0. calls w2 = calls w @ cs0 \<and> persistBatchEntries ff p now batch w2 = (r, b', w')"
proof -
  obtain found ge w1 where
    g: "call_GetTransactionById p (batch_Namespace batch)
          (txref_ID (payload_TX (batch_Payload batch))) w = ((found, ge), w1)"
    by (metis prod.exhaust)
  let ?get = "OpGetTransactionById (batch_Namespace batch)
          (txref_ID (payload_TX (batch_Payload batch))) found ge"
  from g have c1: "calls w1 = calls w @ [?get]"
    by (auto simp add: call_GetTransactionById_def split: prod.splits)
  let ?chosen = "case found of
                   None \<Rightarrow> Some (newTransaction ff batch author)
                 | Some tx \<Rightarrow> if subjectMismatch tx batch author then None else Some tx"
  show ?thesis
  proof (cases ?chosen)
    case None
    with run g have "w' = w1"
      by (simp_all add: persistBatchTransaction_alt)
    with c1 have "newCalls w w' = [?get]" by (simp add: newCalls_def)
    with ok show ?thesis by simp
  next
    case (Some tx)
    let ?tx = "confirmTransaction tx now protocolTxId additionalInfo"
    obtain rt w2 where u: "call_UpsertTransaction p ?tx False w1 = (rt, w2)"
      by (cases "call_UpsertTransaction p ?tx False w1")
    then have c2: "calls w2 = calls w1 @ [OpUpsertTransaction ?tx False rt]"
      by (auto simp add: call_UpsertTransaction_def split: prod.splits)
    show ?thesis
    proof (cases rt)
      case None
      with run g Some u have e: "persistBatchEntries ff p now batch w2 = (r, b', w')"
        by (simp add: persistBatchTransaction_alt)
      from c1 c2 have "calls w2 = calls w @ [?get, OpUpsertTransaction ?tx False rt]" by simp
      with e show ?thesis by blast
    next
      case (Some err)
      with run g \<open>?chosen = Some tx\<close> u have "w' = w2"
        by (auto simp add: persistBatchTransaction_alt split: if_splits)
      with c1 c2 have "newCalls w w' = [?get, OpUpsertTransaction ?tx False rt]"
        by (simp add: newCalls_def)
      with ok Some show ?thesis by simp
    qed
  qed
qed

lemma persistBatch_reaches_entries:
  assumes run: "persistBatch ff p now batch author protocolTxId additionalInfo w = (r, b', w')"
    and ok: "OpUpsertTransaction t False None \<in> set (newCalls w w')"
  shows "\<exists>w2 cs0. calls w2 = calls w @ cs0
           \<and> persistBatchEntries ff p now (batch\<lparr>batch_Confirmed := Some now\<rparr>) w2 = (r, b', w')"
proof (cases "batch_ID batch = None \<or> txref_ID (payload_TX (batch_Payload batch)) = None
     \<or> batch_Hash batch = None
     \<or> batch_Hash batch \<noteq> Some (Payload_Hash ff (batch_Payload batch))
     \<or> batch_Author batch \<noteq> author")
  case True
  with run have "w' = w" by (auto simp add: persistBatch_def split: if_splits)
  with ok show ?thesis by (simp add: newCalls_def)
next
  case False
  let ?b = "batch\<lparr>batch_Confirmed := Some now\<rparr>"
  obtain rb w1 where u: "call_UpsertBatch p ?b False w = (rb, w1)"
    by (cases "call_UpsertBatch p ?b False w")
  then have c1: "calls w1 = calls w @ [OpUpsertBatch ?b False rb]"
    by (auto simp add: call_UpsertBatch_def split: prod.splits)
  show ?thesis
  proof (cases rb)
    case None
    with run False u
    have t: "persistBatchTransaction ff p now ?b author protocolTxId additionalInfo w1 = (r, b', w')"
      by (auto simp add: persistBatch_def Let_def split: if_splits)
    from persistBatchTransaction_log [OF t] obtain cs where cs: "calls w' = calls w1 @ cs"
      by blast
    with c1 have "newCalls w w' = OpUpsertBatch ?b False rb # cs" by (simp add: newCalls_def)
    moreover from cs have "newCalls w1 w' = cs" by (rule newCalls_append)
    ultimately have "OpUpsertTransaction t False None \<in> set (newCalls w1 w')"
      using ok by simp
    from persistBatchTransaction_reaches_entries [OF t this] obtain w2 cs0 where
      "calls w2 = calls w1 @ cs0" "persistBatchEntries ff p now ?b w2 = (r, b', w')"
      by blast
    with c1 have "calls w2 = calls w @ (OpUpsertBatch ?b False rb # cs0)"
      "persistBatchEntries ff p now ?b w2 = (r, b', w')" by simp_all
    then show ?thesis by blast
  next
    case (Some err)
    with run False u have "w' = w1"
      by (auto simp add: persistBatch_def Let_def split: if_splits)
    with c1 have "newCalls w w' = [OpUpsertBatch ?b False rb]" by (simp add: newCalls_def)
    with ok show ?thesis by simp
  qed
qed

lemma persistBatchEntries_upserts:
  assumes run: "persistBatchEntries ff p now batch w = (None, b', w')"
    and m: "Some m \<in> set (payload_Messages (batch_Payload batch))" and v: "Verify ff m = None"
  shows "\<exists>er. (er = None \<or> er = Some HashMismatch)
           \<and> OpUpsertMessage (m\<lparr>msg_Confirmed := Some now, msg_BatchID := batch_ID batch\<rparr>)
                False er \<in> set (newCalls w w')"
proof -
  obtain r1 w1 where d: "persistDataEntries ff p batch 0 (payload_Data (batch_Payload batch)) w = (r1, w1)"
    by (cases "persistDataEntries ff p batch 0 (payload_Data (batch_Payload batch)) w")
  obtain r2 ms2 w2 where
    ms: "persistMessageEntries ff p batch now 0 (payload_Messages (batch_Payload batch)) w1 = (r2, ms2, w2)"
    by (cases "persistMessageEntries ff p batch now 0 (payload_Messages (batch_Payload batch)) w1")
  from run d ms have eq: "r1 = None" "r2 = None" "w2 = w'"
    by (auto simp add: persistBatchEntries_def split: option.splits)
  from persistDataEntries_log [OF d] obtain cs1 where cs1: "calls w1 = calls w @ cs1" by blast
  from persistMessageEntries_log [OF ms] obtain cs2 where cs2: "calls w2 = calls w1 @ cs2" by blast
  from ms eq have "persistMessageEntries ff p batch now 0 (payload_Messages (batch_Payload batch)) w1 = (None, ms2, w')"
    by simp
  from persistMessageEntries_upserts [OF this m v] obtain er where
    er: "er = None \<or> er = Some HashMismatch"
    and c: "OpUpsertMessage (m\<lparr>msg_Confirmed := Some now, msg_BatchID := batch_ID batch\<rparr>)
                False er \<in> set (newCalls w1 w')"
    by blast
  from cs2 eq have "newCalls w1 w' = cs2" by (simp add: newCalls_def)
  moreover from cs1 cs2 eq have "newCalls w w' = cs1 @ cs2" by (simp add: newCalls_def)
  ultimately show ?thesis using er c by auto
qed

text \<open>
  Claim C1, as the spec has it: for every accepted batch and every accepted message of it,
  an Event \<open>message-confirmed\<close> with the message's id and the batch's namespace is inserted
  before \<open>persistBatch\<close> returns \<open>nil\<close>. It is not: on the batch of the happy path, with a
  store that accepts everything, \<open>persistBatch\<close> returns \<open>nil\<close>, the message is upserted,
  and the log has no insertion of an event.
\<close>

theorem persistBatch_no_event_counterexample:
  "fst (persistBatch sampleFftypes (fixedPlugins None (None, None) None None None) 7 sampleBatch
          ''A'' ''0x01'' [] emptyWorld) = None
   \<and> OpUpsertMessage (sampleMessage\<lparr>msg_Confirmed := Some 7, msg_BatchID := Some ''B1''\<rparr>) False None
       \<in> set (calls (snd (snd (persistBatch sampleFftypes
            (fixedPlugins None (None, None) None None None) 7 sampleBatch
            ''A'' ''0x01'' [] emptyWorld))))
   \<and> filter eventInsert (calls (snd (snd (persistBatch sampleFftypes
            (fixedPlugins None (None, None) None None None) 7 sampleBatch
            ''A'' ''0x01'' [] emptyWorld)))) = []"
  by (simp add: persist_defs sample_defs)

text \<open>
  Claim C1, amended: when \<open>persistBatch\<close> has accepted the batch (the upsert of its
  transaction answered \<open>nil\<close>) and returns \<open>nil\<close>, every message entry that is not \<open>nil\<close> and
  that \<open>Verify\<close> accepts has been upserted with \<open>Confirmed = now\<close>, \<open>BatchID = batch.ID\<close> and
  \<open>allowHashUpdate = false\<close>, the upsert answering \<open>nil\<close> or \<open>HashMismatch\<close>; and \<open>persistBatch\<close>
  has inserted no event.
\<close>

theorem persistBatch_accepted_messages:
  assumes run: "persistBatch ff p now batch author protocolTxId additionalInfo w = (None, b', w')"
    and accepted: "OpUpsertTransaction t False None \<in> set (newCalls w w')"
    and m: "Some m \<in> set (payload_Messages (batch_Payload batch))"
    and v: "Verify ff m = None"
  shows "(\<exists>er. (er = None \<or> er = Some HashMismatch)
            \<and> OpUpsertMessage (m\<lparr>msg_Confirmed := Some now, msg_BatchID := batch_ID batch\<rparr>)
                 False er \<in> set (newCalls w w'))
         \<and> filter eventInsert (newCalls w w') = []"
proof -
  let ?b = "batch\<lparr>batch_Confirmed := Some now\<rparr>"
  from persistBatch_reaches_entries [OF run accepted] obtain w2 cs0 where
    w2: "calls w2 = calls w @ cs0" and e: "persistBatchEntries ff p now ?b w2 = (None, b', w')"
    by blast
  from m have m': "Some m \<in> set (payload_Messages (batch_Payload ?b))" by simp
  from persistBatchEntries_upserts [OF e m' v] obtain er where
    er: "er = None \<or> er = Some HashMismatch"
    and c: "OpUpsertMessage (m\<lparr>msg_Confirmed := Some now, msg_BatchID := batch_ID ?b\<rparr>)
                False er \<in> set (newCalls w2 w')"
    by blast
  from persistBatchEntries_log [OF e] obtain cs where cs: "calls w' = calls w2 @ cs" by blast
  with w2 have "newCalls w2 w' = cs" "newCalls w w' = cs0 @ cs" by (simp_all add: newCalls_def)
  with c er have first: "\<exists>er. (er = None \<or> er = Some HashMismatch)
            \<and> OpUpsertMessage (m\<lparr>msg_Confirmed := Some now, msg_BatchID := batch_ID batch\<rparr>)
                 False er \<in> set (newCalls w w')"
    by auto
  from persistBatch_log [OF run] obtain cs' where
    "calls w' = calls w @ cs'" "classified None cs'" by blast
  then have "filter eventInsert (newCalls w w') = []"
    by (simp add: newCalls_append classified_no_event)
  with first show ?thesis by blast
qed

theorem persistBatch_accepted_messages_witness:
  "fst (persistBatch sampleFftypes (fixedPlugins None (None, None) None None (Some HashMismatch)) 7
          sampleBatch ''A'' ''0x02'' [] emptyWorld) = None
   \<and> (\<exists>er. (er = None \<or> er = Some HashMismatch)
         \<and> OpUpsertMessage (sampleMessage\<lparr>msg_Confirmed := Some 7, msg_BatchID := Some ''B1''\<rparr>)
              False er
            \<in> set (newCalls emptyWorld (snd (snd (persistBatch sampleFftypes
                  (fixedPlugins None (None, None) None None (Some HashMismatch)) 7
                  sampleBatch ''A'' ''0x02'' [] emptyWorld)))))
   \<and> filter eventInsert (newCalls emptyWorld (snd (snd (persistBatch sampleFftypes
          (fixedPlugins None (None, None) None None (Some HashMismatch)) 7
          sampleBatch ''A'' ''0x02'' [] emptyWorld)))) = []"
proof -
  let ?p = "fixedPlugins None (None, None) None None (Some HashMismatch)"
  let ?run = "persistBatch sampleFftypes ?p 7 sampleBatch ''A'' ''0x02'' [] emptyWorld"
  let ?t = "confirmTransaction (newTransaction sampleFftypes (sampleBatch\<lparr>batch_Confirmed := Some 7\<rparr>) ''A'')
              7 ''0x02'' []"
  have r: "fst ?run = None"
    by (simp add: persist_defs sample_defs)
  then have run: "?run = (None, fst (snd ?run), snd (snd ?run))"
    by (metis prod.collapse)
  have acc: "OpUpsertTransaction ?t False None \<in> set (newCalls emptyWorld (snd (snd ?run)))"
    by (simp add: persist_defs sample_defs newCalls_def)
  have m: "Some sampleMessage \<in> set (payload_Messages (batch_Payload sampleBatch))"
    by (simp add: sample_defs)
  have v: "Verify sampleFftypes sampleMessage = None"
    by (simp add: sample_defs)
  from persistBatch_accepted_messages [OF run acc m v] r show ?thesis
    by (simp add: sampleBatch_def)
qed

subsection \<open>The transaction record\<close>

text \<open>
  Claim C5: once the batch is upserted, when the read finds no transaction for
  (\<open>batch.Namespace\<close>, \<open>batch.Payload.TX.ID\<close>), \<open>persistBatch\<close> upserts a new one whose subject
  is \<open>{pin, author, batch.Namespace, batch.ID}\<close> and whose hash is the hash of that subject;
  when the read finds one whose subject differs in type, author, namespace or batch (a \<open>nil\<close>
  batch included), \<open>persistBatch\<close> returns \<open>nil\<close> after the read; when the subject agrees, it
  goes on to upsert the record found.
\<close>

theorem persistBatch_transaction_record:
  assumes valid: "batch_ID batch \<noteq> None" "txref_ID (payload_TX (batch_Payload batch)) \<noteq> None"
      "batch_Hash batch = Some (Payload_Hash ff (batch_Payload batch))" "batch_Author batch = author"
    and upserted: "UpsertBatch p (batch\<lparr>batch_Confirmed := Some now\<rparr>) False (db w) = (None, d1)"
    and read: "GetTransactionById p (batch_Namespace batch)
                 (txref_ID (payload_TX (batch_Payload batch))) d1 = ((found, ge), d2)"
  shows "(found = None \<longrightarrow>
            (\<exists>rt rest.
               newCalls w (snd (snd (persistBatch ff p now batch author protocolTxId additionalInfo w))) =
                 [OpUpsertBatch (batch\<lparr>batch_Confirmed := Some now\<rparr>) False None,
                  OpGetTransactionById (batch_Namespace batch)
                    (txref_ID (payload_TX (batch_Payload batch))) None ge,
                  OpUpsertTransaction
                    \<lparr>tx_ID = txref_ID (payload_TX (batch_Payload batch)),
                     tx_Subject = \<lparr>subj_Type = ''pin'', subj_Author = author,
                                   subj_Namespace = batch_Namespace batch,
                                   subj_Batch = batch_ID batch\<rparr>,
                     tx_Hash = Some (Subject_Hash ff
                                  \<lparr>subj_Type = ''pin'', subj_Author = author,
                                   subj_Namespace = batch_Namespace batch,
                                   subj_Batch = batch_ID batch\<rparr>),
                     tx_Confirmed = Some now, tx_ProtocolID = protocolTxId,
                     tx_Info = additionalInfo, tx_Status = ''confirmed''\<rparr>
                    False rt] @ rest))
       \<and> (\<forall>tx. found = Some tx
              \<and> (subj_Type (tx_Subject tx) \<noteq> ''pin''
                 \<or> subj_Author (tx_Subject tx) \<noteq> author
                 \<or> subj_Namespace (tx_Subject tx) \<noteq> batch_Namespace batch
                 \<or> subj_Batch (tx_Subject tx) = None
                 \<or> subj_Batch (tx_Subject tx) \<noteq> batch_ID batch)
            \<longrightarrow> persistBatch ff p now batch author protocolTxId additionalInfo w =
                  (None, batch\<lparr>batch_Confirmed := Some now\<rparr>,
                   \<lparr>db = d2,
                    calls = calls w @
                      [OpUpsertBatch (batch\<lparr>batch_Confirmed := Some now\<rparr>) False None,
                       OpGetTransactionById (batch_Namespace batch)
                         (txref_ID (payload_TX (batch_Payload batch))) (Some tx) ge]\<rparr>))
       \<and> (\<forall>tx. found = Some tx
              \<and> subj_Type (tx_Subject tx) = ''pin''
              \<and> subj_Author (tx_Subject tx) = author
              \<and> subj_Namespace (tx_Subject tx) = batch_Namespace batch
              \<and> subj_Batch (tx_Subject tx) \<noteq> None
              \<and> subj_Batch (tx_Subject tx) = batch_ID batch
            \<longrightarrow> (\<exists>rt rest.
                  newCalls w (snd (snd (persistBatch ff p now batch author protocolTxId additionalInfo w))) =
                    [OpUpsertBatch (batch\<lparr>batch_Confirmed := Some now\<rparr>) False None,
                     OpGetTransactionById (batch_Namespace batch)
                       (txref_ID (payload_TX (batch_Payload batch))) (Some tx) ge,
                     OpUpsertTransaction
                       (tx\<lparr>tx_Confirmed := Some now, tx_ProtocolID := protocolTxId,
                           tx_Info := additionalInfo, tx_Status := ''confirmed''\<rparr>)
                       False rt] @ rest))"
proof -
  let ?b = "batch\<lparr>batch_Confirmed := Some now\<rparr>"
  let ?w1 = "\<lparr>db = d1, calls = calls w @ [OpUpsertBatch ?b False None]\<rparr>"
  let ?ns = "batch_Namespace batch"
  let ?id = "txref_ID (payload_TX (batch_Payload batch))"
  let ?w2 = "\<lparr>db = d2, calls = calls w @ [OpUpsertBatch ?b False None,
                OpGetTransactionById ?ns ?id found ge]\<rparr>"
  let ?run = "persistBatch ff p now batch author protocolTxId additionalInfo w"
  from valid upserted
  have stage1: "?run = persistBatchTransaction ff p now ?b author protocolTxId additionalInfo ?w1"
    by (auto simp add: persistBatch_def call_UpsertBatch_def Let_def)
  from read have g: "call_GetTransactionById p ?ns ?id ?w1 = ((found, ge), ?w2)"
    by (simp add: call_GetTransactionById_def)
  have proceed: "\<exists>rt rest. newCalls w (snd (snd ?run)) =
        [OpUpsertBatch ?b False None, OpGetTransactionById ?ns ?id found ge,
         OpUpsertTransaction (confirmTransaction tx now protocolTxId additionalInfo) False rt] @ rest"
    if chosen: "(case found of None \<Rightarrow> Some (newTransaction ff ?b author)
                 | Some tx \<Rightarrow> if subjectMismatch tx ?b author then None else Some tx) = Some tx"
    for tx
  proof -
    let ?tx = "confirmTransaction tx now protocolTxId additionalInfo"
    obtain rt w3 where u: "call_UpsertTransaction p ?tx False ?w2 = (rt, w3)"
      by (cases "call_UpsertTransaction p ?tx False ?w2")
    then have c3: "calls w3 = calls ?w2 @ [OpUpsertTransaction ?tx False rt]"
      by (auto simp add: call_UpsertTransaction_def split: prod.splits)
    have "\<exists>rest. calls (snd (snd ?run)) = calls w3 @ rest"
    proof (cases rt)
      case None
      with stage1 g chosen u have "?run = persistBatchEntries ff p now ?b w3"
        by (simp add: persistBatchTransaction_alt)
      moreover obtain r3 b3 w4 where e: "persistBatchEntries ff p now ?b w3 = (r3, b3, w4)"
        by (cases "persistBatchEntries ff p now ?b w3")
      moreover from persistBatchEntries_log [OF e] obtain cs where "calls w4 = calls w3 @ cs"
        by blast
      ultimately show ?thesis by simp
    next
      case (Some err)
      with stage1 g chosen u have "snd (snd ?run) = w3"
        by (simp add: persistBatchTransaction_alt)
      then show ?thesis by simp
    qed
    then obtain rest where "calls (snd (snd ?run)) = calls w3 @ rest" by blast
    with c3 have "newCalls w (snd (snd ?run)) =
        [OpUpsertBatch ?b False None, OpGetTransactionById ?ns ?id found ge,
         OpUpsertTransaction ?tx False rt] @ rest"
      by (simp add: newCalls_def)
    then show ?thesis by blast
  qed
  have a: "found = None \<longrightarrow>
            (\<exists>rt rest.
               newCalls w (snd (snd ?run)) =
                 [OpUpsertBatch ?b False None,
                  OpGetTransactionById ?ns ?id None ge,
                  OpUpsertTransaction
                    \<lparr>tx_ID = ?id,
                     tx_Subject = \<lparr>subj_Type = ''pin'', subj_Author = author,
                                   subj_Namespace = batch_Namespace batch,
                                   subj_Batch = batch_ID batch\<rparr>,
                     tx_Hash = Some (Subject_Hash ff
                                  \<lparr>subj_Type = ''pin'', subj_Author = author,
                                   subj_Namespace = batch_Namespace batch,
                                   subj_Batch = batch_ID batch\<rparr>),
                     tx_Confirmed = Some now, tx_ProtocolID = protocolTxId,
                     tx_Info = additionalInfo, tx_Status = ''confirmed''\<rparr>
                    False rt] @ rest)"
  proof
    assume n: "found = None"
    then have "(case found of None \<Rightarrow> Some (newTransaction ff ?b author)
                 | Some tx \<Rightarrow> if subjectMismatch tx ?b author then None else Some tx)
               = Some (newTransaction ff ?b author)"
      by simp
    from proceed [OF this] n show "\<exists>rt rest.
               newCalls w (snd (snd ?run)) =
                 [OpUpsertBatch ?b False None,
                  OpGetTransactionById ?ns ?id None ge,
                  OpUpsertTransaction
                    \<lparr>tx_ID = ?id,
                     tx_Subject = \<lparr>subj_Type = ''pin'', subj_Author = author,
                                   subj_Namespace = batch_Namespace batch,
                                   subj_Batch = batch_ID batch\<rparr>,
                     tx_Hash = Some (Subject_Hash ff
                                  \<lparr>subj_Type = ''pin'', subj_Author = author,
                                   subj_Namespace = batch_Namespace batch,
                                   subj_Batch = batch_ID batch\<rparr>),
                     tx_Confirmed = Some now, tx_ProtocolID = protocolTxId,
                     tx_Info = additionalInfo, tx_Status = ''confirmed''\<rparr>
                    False rt] @ rest"
      by (simp add: newTransaction_def confirmTransaction_def TransactionTypePin_def
          TransactionStatusConfirmed_def Let_def)
  qed
  have b: "\<forall>tx. found = Some tx
              \<and> (subj_Type (tx_Subject tx) \<noteq> ''pin''
                 \<or> subj_Author (tx_Subject tx) \<noteq> author
                 \<or> subj_Namespace (tx_Subject tx) \<noteq> batch_Namespace batch
                 \<or> subj_Batch (tx_Subject tx) = None
                 \<or> subj_Batch (tx_Subject tx) \<noteq> batch_ID batch)
            \<longrightarrow> ?run =
                  (None, ?b,
                   \<lparr>db = d2,
                    calls = calls w @
                      [OpUpsertBatch ?b False None,
                       OpGetTransactionById ?ns ?id (Some tx) ge]\<rparr>)"
  proof (intro allI impI, elim conjE)
    fix tx
    assume f: "found = Some tx"
      and mm: "subj_Type (tx_Subject tx) \<noteq> ''pin''
                 \<or> subj_Author (tx_Subject tx) \<noteq> author
                 \<or> subj_Namespace (tx_Subject tx) \<noteq> batch_Namespace batch
                 \<or> subj_Batch (tx_Subject tx) = None
                 \<or> subj_Batch (tx_Subject tx) \<noteq> batch_ID batch"
    from mm have "subjectMismatch tx ?b author"
      by (simp add: subjectMismatch_def TransactionTypePin_def)
    with stage1 g f show "?run =
                  (None, ?b,
                   \<lparr>db = d2,
                    calls = calls w @
                      [OpUpsertBatch ?b False None,
                       OpGetTransactionById ?ns ?id (Some tx) ge]\<rparr>)"
      by (simp add: persistBatchTransaction_alt)
  qed
  have c: "\<forall>tx. found = Some tx
              \<and> subj_Type (tx_Subject tx) = ''pin''
              \<and> subj_Author (tx_Subject tx) = author
              \<and> subj_Namespace (tx_Subject tx) = batch_Namespace batch
              \<and> subj_Batch (tx_Subject tx) \<noteq> None
              \<and> subj_Batch (tx_Subject tx) = batch_ID batch
            \<longrightarrow> (\<exists>rt rest.
                  newCalls w (snd (snd ?run)) =
                    [OpUpsertBatch ?b False None,
                     OpGetTransactionById ?ns ?id (Some tx) ge,
                     OpUpsertTransaction
                       (tx\<lparr>tx_Confirmed := Some now, tx_ProtocolID := protocolTxId,
                           tx_Info := additionalInfo, tx_Status := ''confirmed''\<rparr>)
                       False rt] @ rest)"
  proof (intro allI impI, elim conjE)
    fix tx
    assume f: "found = Some tx"
      and "subj_Type (tx_Subject tx) = ''pin''"
      "subj_Author (tx_Subject tx) = author"
      "subj_Namespace (tx_Subject tx) = batch_Namespace batch"
      "subj_Batch (tx_Subject tx) \<noteq> None"
      "subj_Batch (tx_Subject tx) = batch_ID batch"
    then have "\<not> subjectMismatch tx ?b author"
      by (simp add: subjectMismatch_def TransactionTypePin_def)
    with f have "(case found of None \<Rightarrow> Some (newTransaction ff ?b author)
                 | Some tx \<Rightarrow> if subjectMismatch tx ?b author then None else Some tx) = Some tx"
      by simp
    from proceed [OF this] f show "\<exists>rt rest.
                  newCalls w (snd (snd ?run)) =
                    [OpUpsertBatch ?b False None,
                     OpGetTransactionById ?ns ?id (Some tx) ge,
                     OpUpsertTransaction
                       (tx\<lparr>tx_Confirmed := Some now, tx_ProtocolID := protocolTxId,
                           tx_Info := additionalInfo, tx_Status := ''confirmed''\<rparr>)
                       False rt] @ rest"
      by (simp add: confirmTransaction_def TransactionStatusConfirmed_def)
  qed
  from a b c show ?thesis by blast
qed

theorem persistBatch_transaction_record_witness:
  "(\<exists>rt rest.
      newCalls emptyWorld (snd (snd (persistBatch sampleFftypes
          (fixedPlugins None (None, None) None None None) 7 sampleBatch ''A'' ''0x03'' [] emptyWorld))) =
        [OpUpsertBatch (sampleBatch\<lparr>batch_Confirmed := Some 7\<rparr>) False None,
         OpGetTransactionById ''ns1'' (Some ''T1'') None None,
         OpUpsertTransaction
           \<lparr>tx_ID = Some ''T1'',
            tx_Subject = \<lparr>subj_Type = ''pin'', subj_Author = ''A'', subj_Namespace = ''ns1'',
                          subj_Batch = Some ''B1''\<rparr>,
            tx_Hash = Some ''hs'', tx_Confirmed = Some 7, tx_ProtocolID = ''0x03'',
            tx_Info = [], tx_Status = ''confirmed''\<rparr>
           False rt] @ rest)
   \<and> persistBatch sampleFftypes
        (fixedPlugins None (Some (sampleTransaction ''Z''), None) None None None) 7 sampleBatch
        ''A'' ''0x03'' [] emptyWorld =
      (None, sampleBatch\<lparr>batch_Confirmed := Some 7\<rparr>,
       \<lparr>db = (),
        calls = [OpUpsertBatch (sampleBatch\<lparr>batch_Confirmed := Some 7\<rparr>) False None,
                 OpGetTransactionById ''ns1'' (Some ''T1'') (Some (sampleTransaction ''Z'')) None]\<rparr>)
   \<and> (\<exists>rt rest.
      newCalls emptyWorld (snd (snd (persistBatch sampleFftypes
          (fixedPlugins None (Some (sampleTransaction ''A''), None) None None None) 7 sampleBatch
          ''A'' ''0x03'' [] emptyWorld))) =
        [OpUpsertBatch (sampleBatch\<lparr>batch_Confirmed := Some 7\<rparr>) False None,
         OpGetTransactionById ''ns1'' (Some ''T1'') (Some (sampleTransaction ''A'')) None,
         OpUpsertTransaction
           ((sampleTransaction ''A'')\<lparr>tx_Confirmed := Some 7, tx_ProtocolID := ''0x03'',
               tx_Info := [], tx_Status := ''confirmed''\<rparr>)
           False rt] @ rest)"
proof -
  have v: "batch_ID sampleBatch \<noteq> None" "txref_ID (payload_TX (batch_Payload sampleBatch)) \<noteq> None"
      "batch_Hash sampleBatch = Some (Payload_Hash sampleFftypes (batch_Payload sampleBatch))"
      "batch_Author sampleBatch = ''A''"
    by (simp_all add: sample_defs)
  have u: "UpsertBatch (fixedPlugins None g None None None) (sampleBatch\<lparr>batch_Confirmed := Some 7\<rparr>)
             False (db emptyWorld) = (None, ())" for g
    by (simp add: sample_defs)
  have r: "GetTransactionById (fixedPlugins None (f, None) None None None) (batch_Namespace sampleBatch)
             (txref_ID (payload_TX (batch_Payload sampleBatch))) () = ((f, None), ())" for f
    by (simp add: sample_defs)
  note t = persistBatch_transaction_record [OF v u r, of _ "''0x03''" "[]"]
  from t [of None] have a: "\<exists>rt rest.
      newCalls emptyWorld (snd (snd (persistBatch sampleFftypes
          (fixedPlugins None (None, None) None None None) 7 sampleBatch ''A'' ''0x03'' [] emptyWorld))) =
        [OpUpsertBatch (sampleBatch\<lparr>batch_Confirmed := Some 7\<rparr>) False None,
         OpGetTransactionById ''ns1'' (Some ''T1'') None None,
         OpUpsertTransaction
           \<lparr>tx_ID = Some ''T1'',
            tx_Subject = \<lparr>subj_Type = ''pin'', subj_Author = ''A'', subj_Namespace = ''ns1'',
                          subj_Batch = Some ''B1''\<rparr>,
            tx_Hash = Some ''hs'', tx_Confirmed = Some 7, tx_ProtocolID = ''0x03'',
            tx_Info = [], tx_Status = ''confirmed''\<rparr>
           False rt] @ rest"
    by (simp add: sampleBatch_def samplePayload_def sampleFftypes_def)
  have mm: "subj_Author (tx_Subject (sampleTransaction ''Z'')) \<noteq> ''A''"
    by (simp add: sampleTransaction_def)
  with t [of "Some (sampleTransaction ''Z'')"] have b: "persistBatch sampleFftypes
        (fixedPlugins None (Some (sampleTransaction ''Z''), None) None None None) 7 sampleBatch
        ''A'' ''0x03'' [] emptyWorld =
      (None, sampleBatch\<lparr>batch_Confirmed := Some 7\<rparr>,
       \<lparr>db = (),
        calls = [OpUpsertBatch (sampleBatch\<lparr>batch_Confirmed := Some 7\<rparr>) False None,
                 OpGetTransactionById ''ns1'' (Some ''T1'') (Some (sampleTransaction ''Z'')) None]\<rparr>)"
    by (simp add: sampleBatch_def samplePayload_def emptyWorld_def)
  have ok: "subj_Type (tx_Subject (sampleTransaction ''A'')) = ''pin''
      \<and> subj_Author (tx_Subject (sampleTransaction ''A'')) = ''A''
      \<and> subj_Namespace (tx_Subject (sampleTransaction ''A'')) = batch_Namespace sampleBatch
      \<and> subj_Batch (tx_Subject (sampleTransaction ''A'')) \<noteq> None
      \<and> subj_Batch (tx_Subject (sampleTransaction ''A'')) = batch_ID sampleBatch"
    by (simp add: sampleTransaction_def sampleBatch_def)
  with t [of "Some (sampleTransaction ''A'')"] have c: "\<exists>rt rest.
      newCalls emptyWorld (snd (snd (persistBatch sampleFftypes
          (fixedPlugins None (Some (sampleTransaction ''A''), None) None None None) 7 sampleBatch
          ''A'' ''0x03'' [] emptyWorld))) =
        [OpUpsertBatch (sampleBatch\<lparr>batch_Confirmed := Some 7\<rparr>) False None,
         OpGetTransactionById ''ns1'' (Some ''T1'') (Some (sampleTransaction ''A'')) None,
         OpUpsertTransaction
           ((sampleTransaction ''A'')\<lparr>tx_Confirmed := Some 7, tx_ProtocolID := ''0x03'',
               tx_Info := [], tx_Status := ''confirmed''\<rparr>)
           False rt] @ rest"
    by (simp add: sampleBatch_def samplePayload_def)
  from a b c show ?thesis by blast
qed

section \<open>Theorems: the subscription table\<close>

lemma getSubscription_split:
  "getSubscription rows ns name = Some stored \<Longrightarrow>
     \<exists>before after. rows = before @ stored # after
        \<and> (\<forall>row \<in> set before. \<not> sameKey ns name row) \<and> sameKey ns name stored"
proof (induction rows)
  case Nil
  then show ?case by (simp add: getSubscription_def)
next
  case (Cons row rows)
  show ?case
  proof (cases "sameKey ns name row")
    case True
    with Cons.prems have "row = stored" by (simp add: getSubscription_def)
    with True have "row # rows = [] @ stored # rows
        \<and> (\<forall>r \<in> set []. \<not> sameKey ns name r) \<and> sameKey ns name stored"
      by simp
    then show ?thesis by blast
  next
    case False
    with Cons.prems have "getSubscription rows ns name = Some stored"
      by (simp add: getSubscription_def)
    from Cons.IH [OF this] obtain before after where
      "rows = before @ stored # after" "\<forall>r \<in> set before. \<not> sameKey ns name r"
      "sameKey ns name stored"
      by blast
    with False have "row # rows = (row # before) @ stored # after
        \<and> (\<forall>r \<in> set (row # before). \<not> sameKey ns name r) \<and> sameKey ns name stored"
      by simp
    then show ?thesis by blast
  qed
qed

lemma updateRow_in_place:
  "\<forall>row \<in> set before. \<not> sameKey ns name row \<Longrightarrow> sameKey ns name stored
     \<Longrightarrow> updateRow ns name sub (before @ stored # after) = before @ sub # after"
  by (induction before) simp_all

lemma getSubscription_in_place:
  "\<forall>row \<in> set before. \<not> sameKey ns name row \<Longrightarrow> sameKey ns name sub
     \<Longrightarrow> getSubscription (before @ sub # after) ns name = Some sub"
  by (induction before) (simp_all add: getSubscription_def)


text \<open>
  Claim C6: for a stored subscription with key (namespace, name), an upsert with the same
  key and an id that is not null and differs from the stored one returns \<open>IDMismatch\<close> and
  leaves the table as it was; the same upsert with a null id, made next, succeeds and
  replaces the row where it stands, under the stored id, so that reading the key back
  gives the new row.
\<close>

theorem upsertSubscription_id_mismatch:
  assumes stored: "getSubscription rows ns name = Some stored"
    and key: "sub_Namespace sub = ns" "sub_Name sub = name"
    and id: "sub_ID sub = Some y" "sub_ID stored \<noteq> Some y"
  shows "upsertSubscription fresh sub allowExisting rows = (Some IDMismatch, sub, rows)
    \<and> (\<exists>before after.
          rows = before @ stored # after
          \<and> list_all (\<lambda>row. \<not> sameKey ns name row) before
          \<and> upsertSubscription fresh' (sub\<lparr>sub_ID := None\<rparr>) allowExisting'
               (snd (snd (upsertSubscription fresh sub allowExisting rows))) =
             (None, sub\<lparr>sub_ID := sub_ID stored\<rparr>,
              before @ sub\<lparr>sub_ID := sub_ID stored\<rparr> # after)
          \<and> getSubscription (before @ sub\<lparr>sub_ID := sub_ID stored\<rparr> # after) ns name =
             Some (sub\<lparr>sub_ID := sub_ID stored\<rparr>))"
proof -
  from stored key id have first: "upsertSubscription fresh sub allowExisting rows = (Some IDMismatch, sub, rows)"
    by (simp add: upsertSubscription_def)
  from getSubscription_split [OF stored] obtain before after where
    rows: "rows = before @ stored # after"
    and nb: "\<forall>row \<in> set before. \<not> sameKey ns name row"
    and st: "sameKey ns name stored"
    by blast
  let ?sub = "sub\<lparr>sub_ID := sub_ID stored\<rparr>"
  from key have k: "sameKey ns name ?sub" by (simp add: sameKey_def)
  from stored key have "upsertSubscription fresh' (sub\<lparr>sub_ID := None\<rparr>) allowExisting' rows =
      (None, ?sub, updateRow ns name ?sub rows)"
    by (simp add: upsertSubscription_def Let_def)
  with rows updateRow_in_place [OF nb st] first
  have second: "upsertSubscription fresh' (sub\<lparr>sub_ID := None\<rparr>) allowExisting'
               (snd (snd (upsertSubscription fresh sub allowExisting rows))) =
             (None, ?sub, before @ ?sub # after)"
    by simp
  from nb have "list_all (\<lambda>row. \<not> sameKey ns name row) before"
    by (simp add: list_all_iff)
  with rows second getSubscription_in_place [OF nb k] first show ?thesis by blast
qed

theorem upsertSubscription_id_mismatch_witness:
  "upsertSubscription ''Z'' subscriptionUpdated True [subscription1\<lparr>sub_ID := Some ''X''\<rparr>] =
     (Some IDMismatch, subscriptionUpdated, [subscription1\<lparr>sub_ID := Some ''X''\<rparr>])
   \<and> upsertSubscription ''Z'' (subscriptionUpdated\<lparr>sub_ID := None\<rparr>) True
        [subscription1\<lparr>sub_ID := Some ''X''\<rparr>] =
     (None, subscriptionUpdated\<lparr>sub_ID := Some ''X''\<rparr>, [subscriptionUpdated\<lparr>sub_ID := Some ''X''\<rparr>])"
proof -
  let ?rows = "[subscription1\<lparr>sub_ID := Some ''X''\<rparr>]"
  have s: "getSubscription ?rows ''ns1'' ''subscription1'' = Some (subscription1\<lparr>sub_ID := Some ''X''\<rparr>)"
    by (simp add: getSubscription_def sameKey_def subscription1_def)
  have k: "sub_Namespace subscriptionUpdated = ''ns1''" "sub_Name subscriptionUpdated = ''subscription1''"
    by (simp_all add: subscriptionUpdated_def)
  have i: "sub_ID subscriptionUpdated = Some ''Y''"
    "sub_ID (subscription1\<lparr>sub_ID := Some ''X''\<rparr>) \<noteq> Some ''Y''"
    by (simp_all add: subscriptionUpdated_def)
  from upsertSubscription_id_mismatch [OF s k i, of "''Z''" True "''Z''" True]
  obtain before after where
    a: "upsertSubscription ''Z'' subscriptionUpdated True ?rows = (Some IDMismatch, subscriptionUpdated, ?rows)"
    and r: "?rows = before @ subscription1\<lparr>sub_ID := Some ''X''\<rparr> # after"
    and b: "upsertSubscription ''Z'' (subscriptionUpdated\<lparr>sub_ID := None\<rparr>) True
               (snd (snd (upsertSubscription ''Z'' subscriptionUpdated True ?rows))) =
             (None, subscriptionUpdated\<lparr>sub_ID := sub_ID (subscription1\<lparr>sub_ID := Some ''X''\<rparr>)\<rparr>,
              before @ subscriptionUpdated\<lparr>sub_ID := sub_ID (subscription1\<lparr>sub_ID := Some ''X''\<rparr>)\<rparr> # after)"
    by blast
  from r have "before = [] \<and> after = []"
    by (cases before) simp_all
  with a b show ?thesis by simp
qed







end
